theory Spec2Isabelle
  imports Complex_Main
begin

section \<open>Conventions of the embedding\<close>

text \<open>
  The two source files are \<^verbatim>\<open>gluoncv/loss.py\<close> (loss blocks built from tensor
  primitives of the host framework) and
  \<^verbatim>\<open>scripts/classification/pointcloud/train_pointnet.py\<close> (the training script).

  Tensors are nested lists, outermost axis first. Tensor entries, learning rates and
  accuracies are \<^typ>\<open>real\<close> numbers: the 32-bit floating-point arithmetic of the
  framework (rounding, infinities, NaN) is idealised away, so a statement below is about
  the formula the code evaluates, not about its rounding error. In particular a quotient
  whose divisor is zero (a degenerate box of union area zero, the mean of an empty tensor)
  is an infinity or NaN in the framework and the number 0 in HOL; the statements below
  say nothing reliable about such inputs. Calls into the framework
  that the code makes for their effect (\<^verbatim>\<open>trainer.step\<close>,
  \<^verbatim>\<open>net.save_parameters\<close>) are recorded in a trace of events. Python exceptions
  raised by the code itself are values of \<open>py_error\<close>, returned on the left of a sum;
  \<open>MXNetError\<close> is the framework's error for operands whose ranks do not fit.
\<close>

datatype py_error = ValueError | ZeroDivisionError | IndexError | TypeError | MXNetError

section \<open>The training loop of \<^verbatim>\<open>train_pointnet.py\<close>\<close>

subsection \<open>Module-level configuration\<close>

text \<open>
  \<^verbatim>\<open>lr_decay_epoch = [int(i) for i in opt.lr_decay_epoch.split(',')] + [np.inf]\<close>:
  the parsed integers, closed by an entry that no epoch number equals.
\<close>

datatype decay_entry = At int | Inf

definition lr_decay_epoch_list :: "int list \<Rightarrow> decay_entry list" where
  "lr_decay_epoch_list parsed = map At parsed @ [Inf]"

text \<open>
  The options the loop reads. \<open>opt_lr_decay_epoch\<close> is the already parsed list of
  integers of \<^verbatim>\<open>--lr-decay-epoch\<close>; \<open>opt_save_dir\<close> and
  \<open>opt_save_period\<close> are the raw command-line values.
\<close>

record options =
  opt_lr :: real
  opt_lr_decay :: real
  opt_lr_decay_epoch :: "int list"
  opt_save_period :: int
  opt_save_dir :: string

text \<open>
  \<^verbatim>\<open>
  save_period = opt.save_period
  if opt.save_dir and save_period:
      save_dir = opt.save_dir
  else:
      save_dir = ''
      save_period = 0
  \<close>
\<close>

definition save_dir :: "options \<Rightarrow> string" where
  "save_dir opt = (if opt_save_dir opt \<noteq> [] \<and> opt_save_period opt \<noteq> 0 then opt_save_dir opt else [])"

definition save_period :: "options \<Rightarrow> int" where
  "save_period opt = (if opt_save_dir opt \<noteq> [] \<and> opt_save_period opt \<noteq> 0 then opt_save_period opt else 0)"

subsection \<open>State and events\<close>

text \<open>
  The calls the loop makes into the framework, in order. Each carries the epoch in which
  it is made; \<open>TrainerStep\<close> also carries the learning rate the trainer holds when
  \<^verbatim>\<open>trainer.step(batch_size)\<close> is called, \<open>SetLearningRate\<close> the new rate, and
  \<open>SaveBest\<close> the score written into the name of the \<^verbatim>\<open>-best.params\<close> file.
\<close>

datatype event =
    SetLearningRate int real
  | TrainerStep int real
  | SaveBest int real
  | SaveParams int

record train_state =
  learning_rate :: real
  lr_decay_count :: nat
  iteration :: nat
  best_val_score :: real
  trace :: "event list"

text \<open>
  The state before the first epoch: \<^verbatim>\<open>gluon.Trainer(..., {'learning_rate': opt.lr, ...})\<close>,
  \<^verbatim>\<open>iteration = 0\<close>, \<^verbatim>\<open>lr_decay_count = 0\<close>, \<^verbatim>\<open>best_val_score = 0\<close>.
\<close>

definition init_state :: "options \<Rightarrow> train_state" where
  "init_state opt =
     \<lparr>learning_rate = opt_lr opt, lr_decay_count = 0, iteration = 0,
      best_val_score = 0, trace = []\<rparr>"

subsection \<open>One epoch\<close>

text \<open>
  \<^verbatim>\<open>
  if epoch == lr_decay_epoch[lr_decay_count]:
      trainer.set_learning_rate(trainer.learning_rate*lr_decay)
      lr_decay_count += 1
  \<close>
  Indexing past the end of the list would raise \<^verbatim>\<open>IndexError\<close>.
\<close>

definition decay_check :: "options \<Rightarrow> int \<Rightarrow> train_state \<Rightarrow> py_error + train_state" where
  "decay_check opt epoch s =
     (let entries = lr_decay_epoch_list (opt_lr_decay_epoch opt) in
      if lr_decay_count s < length entries then
        (if entries ! lr_decay_count s = At epoch then
           Inr (s\<lparr>learning_rate := learning_rate s * opt_lr_decay opt,
                  lr_decay_count := lr_decay_count s + 1,
                  trace := trace s @ [SetLearningRate epoch (learning_rate s * opt_lr_decay opt)]\<rparr>)
         else Inr s)
      else Inl IndexError)"

text \<open>
  The loop over the mini-batches of the training loader, \<open>n\<close> of them: forward and
  backward pass, \<^verbatim>\<open>trainer.step(batch_size)\<close>, \<^verbatim>\<open>iteration += 1\<close>.
\<close>

fun batch_loop :: "int \<Rightarrow> nat \<Rightarrow> train_state \<Rightarrow> train_state" where
  "batch_loop epoch 0 s = s"
| "batch_loop epoch (Suc n) s =
     batch_loop epoch n
       (s\<lparr>iteration := iteration s + 1,
          trace := trace s @ [TrainerStep epoch (learning_rate s)]\<rparr>)"

text \<open>
  \<^verbatim>\<open>
  if val_acc > best_val_score:
      best_val_score = val_acc
      net.save_parameters('%s/%.4f-shapenet-%s-%d-best.params'%(save_dir, best_val_score, model_name, epoch))
  \<close>
\<close>

definition best_check :: "int \<Rightarrow> real \<Rightarrow> train_state \<Rightarrow> train_state" where
  "best_check epoch val_acc s =
     (if val_acc > best_val_score s then
        s\<lparr>best_val_score := val_acc, trace := trace s @ [SaveBest epoch val_acc]\<rparr>
      else s)"

text \<open>
  \<^verbatim>\<open>
  if save_period and save_dir and (epoch + 1) % save_period == 0:
      net.save_parameters('%s/shapenet-%s-%d.params'%(save_dir, model_name, epoch))
  \<close>
\<close>

definition period_check :: "options \<Rightarrow> int \<Rightarrow> train_state \<Rightarrow> train_state" where
  "period_check opt epoch s =
     (if save_period opt \<noteq> 0 \<and> save_dir opt \<noteq> [] \<and> (epoch + 1) mod save_period opt = 0 then
        s\<lparr>trace := trace s @ [SaveParams epoch]\<rparr>
      else s)"

text \<open>
  The body of \<^verbatim>\<open>for epoch in range(epochs)\<close>. \<open>num_batch\<close> is
  \<^verbatim>\<open>len(train_data)\<close> and \<open>val_acc\<close> gives, for each epoch, the accuracy returned
  by the first call of \<^verbatim>\<open>test(ctx, val_data)\<close> in it.

  \<^verbatim>\<open>train_loss\<close> starts as the integer \<^verbatim>\<open>0\<close> and becomes a floating-point
  number with the first mini-batch. So \<^verbatim>\<open>train_loss /= batch_size * num_batch\<close>
  raises \<^verbatim>\<open>ZeroDivisionError\<close> exactly when the loader yields no mini-batch; with
  at least one, a zero divisor gives a floating-point infinity or NaN and no exception.
\<close>

definition epoch_body ::
  "options \<Rightarrow> nat \<Rightarrow> (int \<Rightarrow> real) \<Rightarrow> int \<Rightarrow> train_state \<Rightarrow> py_error + train_state" where
  "epoch_body opt num_batch val_acc epoch s =
     (case decay_check opt epoch s of
        Inl err \<Rightarrow> Inl err
      | Inr s1 \<Rightarrow>
          (let s2 = batch_loop epoch num_batch s1 in
           if num_batch = 0 then Inl ZeroDivisionError
           else Inr (period_check opt epoch (best_check epoch (val_acc epoch) s2))))"

subsection \<open>The whole of \<^verbatim>\<open>train(epochs, ctx)\<close>\<close>

definition range_py :: "int \<Rightarrow> int list" where
  "range_py n = map int [0..<nat n]"

fun train_loop ::
  "options \<Rightarrow> nat \<Rightarrow> (int \<Rightarrow> real) \<Rightarrow> int list \<Rightarrow> train_state \<Rightarrow> py_error + train_state" where
  "train_loop opt num_batch val_acc [] s = Inr s"
| "train_loop opt num_batch val_acc (epoch # rest) s =
     (case epoch_body opt num_batch val_acc epoch s of
        Inl err \<Rightarrow> Inl err
      | Inr s' \<Rightarrow> train_loop opt num_batch val_acc rest s')"

text \<open>
  After the loop:
  \<^verbatim>\<open>
  if save_period and save_dir:
      net.save_parameters('%s/shapenet-%s-%d.params'%(save_dir, model_name, epochs-1))
  \<close>
\<close>

definition final_save :: "options \<Rightarrow> int \<Rightarrow> train_state \<Rightarrow> train_state" where
  "final_save opt epochs s =
     (if save_period opt \<noteq> 0 \<and> save_dir opt \<noteq> [] then
        s\<lparr>trace := trace s @ [SaveParams (epochs - 1)]\<rparr>
      else s)"

definition train :: "options \<Rightarrow> nat \<Rightarrow> (int \<Rightarrow> real) \<Rightarrow> int \<Rightarrow> py_error + train_state" where
  "train opt num_batch val_acc epochs =
     (case train_loop opt num_batch val_acc (range_py epochs) (init_state opt) of
        Inl err \<Rightarrow> Inl err
      | Inr s \<Rightarrow> Inr (final_save opt epochs s))"

subsection \<open>Specification-level notions for the training loop\<close>

text \<open>
  \<open>consumed prev xs e\<close> counts the leading entries of the parsed list that form a
  strictly increasing run above \<open>prev\<close> and do not exceed \<open>e\<close>. With
  \<open>prev = -1\<close> these are the entries that some epoch up to \<open>e\<close> has matched while
  they were the next unconsumed entry: the count stops at the first entry that no epoch
  hits (one that is negative, not greater than its predecessor, or beyond \<open>e\<close>).
\<close>

fun consumed :: "int \<Rightarrow> int list \<Rightarrow> int \<Rightarrow> nat" where
  "consumed prev [] e = 0"
| "consumed prev (x # xs) e = (if prev < x \<and> x \<le> e then Suc (consumed x xs e) else 0)"

definition decays_by :: "int list \<Rightarrow> int \<Rightarrow> nat" where
  "decays_by parsed e = consumed (-1) parsed e"

text \<open>
  Epoch \<open>e\<close> equals the next unconsumed entry: the entry at the position reached by
  the end of epoch \<open>e - 1\<close>.
\<close>

definition decays_at :: "int list \<Rightarrow> int \<Rightarrow> bool" where
  "decays_at parsed e = (lr_decay_epoch_list parsed ! decays_by parsed (e - 1) = At e)"

text \<open>The learning rate in force during epoch \<open>e\<close>, in closed form.\<close>

definition lr_in_epoch :: "options \<Rightarrow> int \<Rightarrow> real" where
  "lr_in_epoch opt e = opt_lr opt * opt_lr_decay opt ^ decays_by (opt_lr_decay_epoch opt) e"

text \<open>
  The events of epoch \<open>e\<close> that concern the learning rate: at most one change of the
  rate, at the start, and then one \<^verbatim>\<open>trainer.step\<close> per mini-batch.
\<close>

definition is_lr_event :: "event \<Rightarrow> bool" where
  "is_lr_event ev = (case ev of SetLearningRate _ _ \<Rightarrow> True | TrainerStep _ _ \<Rightarrow> True | _ \<Rightarrow> False)"

definition lr_events :: "options \<Rightarrow> nat \<Rightarrow> int \<Rightarrow> event list" where
  "lr_events opt nb e =
     (if decays_at (opt_lr_decay_epoch opt) e then [SetLearningRate e (lr_in_epoch opt e)] else [])
     @ replicate nb (TrainerStep e (lr_in_epoch opt e))"

text \<open>The loop invariant after \<open>k\<close> completed epochs, for the learning rate.\<close>

definition lr_inv :: "options \<Rightarrow> nat \<Rightarrow> nat \<Rightarrow> train_state \<Rightarrow> bool" where
  "lr_inv opt nb k s \<longleftrightarrow>
     lr_decay_count s = decays_by (opt_lr_decay_epoch opt) (int k - 1) \<and>
     learning_rate s = opt_lr opt * opt_lr_decay opt ^ lr_decay_count s \<and>
     iteration s = k * nb \<and>
     filter is_lr_event (trace s) = concat (map (lr_events opt nb) (map int [0..<k]))"

text \<open>
  The largest validation accuracy seen in the epochs before \<open>e\<close>, starting from the
  initial score 0; "the accuracy of epoch \<open>e\<close> strictly exceeds that of every earlier
  epoch"; and the condition under which the code saves a best checkpoint.
\<close>

definition is_best_event :: "event \<Rightarrow> bool" where
  "is_best_event ev = (case ev of SaveBest _ _ \<Rightarrow> True | _ \<Rightarrow> False)"

definition max_seen :: "(int \<Rightarrow> real) \<Rightarrow> int \<Rightarrow> real" where
  "max_seen val_acc e = Max (insert 0 (val_acc ` set (range_py e)))"

definition exceeds_previous :: "(int \<Rightarrow> real) \<Rightarrow> int \<Rightarrow> bool" where
  "exceeds_previous val_acc e \<longleftrightarrow> list_all (\<lambda>e'. val_acc e' < val_acc e) (range_py e)"

definition new_best :: "(int \<Rightarrow> real) \<Rightarrow> int \<Rightarrow> bool" where
  "new_best val_acc e \<longleftrightarrow> 0 < val_acc e \<and> exceeds_previous val_acc e"

definition best_inv :: "(int \<Rightarrow> real) \<Rightarrow> nat \<Rightarrow> train_state \<Rightarrow> bool" where
  "best_inv va k s \<longleftrightarrow>
     best_val_score s = max_seen va (int k) \<and>
     filter is_best_event (trace s) =
       map (\<lambda>e. SaveBest e (va e)) (filter (new_best va) (range_py (int k)))"

text \<open>
  Concrete runs: the script's default options; a short schedule that decays at epochs 1
  and 3 and saves no periodic checkpoint; a validation accuracy that is 0 in every epoch;
  and one that is 1/2, 1/4, 3/4, 3/4, ...
\<close>

definition default_options :: options where
  "default_options =
     \<lparr>opt_lr = 1/10, opt_lr_decay = 1/10, opt_lr_decay_epoch = [40, 60],
      opt_save_period = 10, opt_save_dir = ''params''\<rparr>"

definition example_options :: options where
  "example_options =
     \<lparr>opt_lr = 1/10, opt_lr_decay = 1/10, opt_lr_decay_epoch = [1, 3],
      opt_save_period = 0, opt_save_dir = ''params''\<rparr>"

definition zero_acc :: "int \<Rightarrow> real" where
  "zero_acc e = 0"

definition example_acc :: "int \<Rightarrow> real" where
  "example_acc e = (if e = 0 then 1/2 else if e = 1 then 1/4 else 3/4)"

section \<open>The loss blocks of \<^verbatim>\<open>gluoncv/loss.py\<close>: constructors\<close>

text \<open>
  The values a caller may pass for \<^verbatim>\<open>num_class\<close>, whose default is
  \<^verbatim>\<open>None\<close>. In Python \<^verbatim>\<open>bool\<close> is a subclass of \<^verbatim>\<open>int\<close>, so
  \<^verbatim>\<open>isinstance(True, int)\<close> holds and \<^verbatim>\<open>True < 1\<close> compares the integer 1.
\<close>

datatype py_value = PyNone | PyBool bool | PyInt int | PyFloat real | PyStr string

definition isinstance_int :: "py_value \<Rightarrow> bool" where
  "isinstance_int v = (case v of PyBool _ \<Rightarrow> True | PyInt _ \<Rightarrow> True | _ \<Rightarrow> False)"

text \<open>The integer an \<^verbatim>\<open>int\<close> instance stands for; read only where \<open>isinstance_int\<close> holds.\<close>

definition int_value :: "py_value \<Rightarrow> int" where
  "int_value v = (case v of PyBool b \<Rightarrow> (if b then 1 else 0) | PyInt n \<Rightarrow> n | _ \<Rightarrow> 0)"

text \<open>
  \<^verbatim>\<open>sparse_label and (not isinstance(num_class, int) or (num_class < 1))\<close>; the
  comparison is evaluated only for an \<^verbatim>\<open>int\<close>.
\<close>

definition num_class_rejected :: "bool \<Rightarrow> py_value \<Rightarrow> bool" where
  "num_class_rejected sparse_label num_class \<longleftrightarrow>
     sparse_label \<and> (\<not> isinstance_int num_class \<or> int_value num_class < 1)"

text \<open>
  \<^verbatim>\<open>FocalLoss\<close>. \<^verbatim>\<open>super().__init__(weight, batch_axis)\<close> stores the weight and the
  batch axis; the attributes assigned before the \<^verbatim>\<open>raise\<close> are lost with the
  object that is never returned.
\<close>

record focal_loss =
  fl_weight :: "real option"
  fl_batch_axis :: int
  fl_axis :: int
  fl_alpha :: real
  fl_gamma :: real
  fl_sparse_label :: bool
  fl_num_class :: py_value
  fl_from_logits :: bool
  fl_eps :: real
  fl_size_average :: bool

definition FocalLoss_init ::
  "int \<Rightarrow> real \<Rightarrow> real \<Rightarrow> bool \<Rightarrow> bool \<Rightarrow> int \<Rightarrow> real option \<Rightarrow> py_value \<Rightarrow> real \<Rightarrow> bool
     \<Rightarrow> py_error + focal_loss" where
  "FocalLoss_init axis alpha gamma sparse_label from_logits batch_axis weight num_class eps size_average =
     (if sparse_label \<and> (\<not> isinstance_int num_class \<or> int_value num_class < 1) then Inl ValueError
      else Inr \<lparr>fl_weight = weight, fl_batch_axis = batch_axis, fl_axis = axis, fl_alpha = alpha,
                fl_gamma = gamma, fl_sparse_label = sparse_label, fl_num_class = num_class,
                fl_from_logits = from_logits, fl_eps = eps, fl_size_average = size_average\<rparr>)"

text \<open>\<^verbatim>\<open>SigmoidFocalLoss\<close>.\<close>

record sigmoid_focal_loss =
  sfl_weight :: "real option"
  sfl_batch_axis :: int
  sfl_alpha :: real
  sfl_gamma :: real
  sfl_sparse_label :: bool
  sfl_num_class :: py_value
  sfl_from_logits :: bool
  sfl_eps :: real

definition SigmoidFocalLoss_init ::
  "real \<Rightarrow> real \<Rightarrow> bool \<Rightarrow> bool \<Rightarrow> int \<Rightarrow> real option \<Rightarrow> py_value \<Rightarrow> real
     \<Rightarrow> py_error + sigmoid_focal_loss" where
  "SigmoidFocalLoss_init alpha gamma sparse_label from_logits batch_axis weight num_class eps =
     (if sparse_label \<and> (\<not> isinstance_int num_class \<or> int_value num_class < 1) then Inl ValueError
      else Inr \<lparr>sfl_weight = weight, sfl_batch_axis = batch_axis, sfl_alpha = alpha,
                sfl_gamma = gamma, sfl_sparse_label = sparse_label, sfl_num_class = num_class,
                sfl_from_logits = from_logits, sfl_eps = eps\<rparr>)"

text \<open>
  \<^verbatim>\<open>MaskFCOSLoss\<close>. \<^verbatim>\<open>img_shape\<close> is a pair, unpacked into
  \<^verbatim>\<open>gt_weidth\<close> and \<^verbatim>\<open>gt_height\<close>; \<^verbatim>\<open>self.max\<close> is set to 0. The loss
  block \<^verbatim>\<open>SBCELoss\<close> it creates has no parameter of the caller's.
\<close>

record mask_fcos_loss =
  mf_return_iou :: bool
  mf_eps :: real
  mf_alpha :: real
  mf_gamma :: real
  mf_cls_lambd :: real
  mf_box_lambd :: real
  mf_ctr_lambd :: real
  mf_mask_lambd :: real
  mf_sparse_label :: bool
  mf_num_class :: py_value
  mf_from_logits :: bool
  mf_gt_weidth :: real
  mf_gt_height :: real
  mf_max :: int

definition MaskFCOSLoss_init ::
  "bool \<Rightarrow> real \<Rightarrow> real \<Rightarrow> real \<Rightarrow> real \<Rightarrow> real \<Rightarrow> real \<Rightarrow> real \<times> real \<Rightarrow> bool \<Rightarrow> bool
     \<Rightarrow> py_value \<Rightarrow> real \<Rightarrow> py_error + mask_fcos_loss" where
  "MaskFCOSLoss_init return_iou alpha gamma cls_lambd box_lambd ctr_lambd mask_lambd img_shape
       sparse_label from_logits num_class eps =
     (if sparse_label \<and> (\<not> isinstance_int num_class \<or> int_value num_class < 1) then Inl ValueError
      else Inr \<lparr>mf_return_iou = return_iou, mf_eps = eps, mf_alpha = alpha, mf_gamma = gamma,
                mf_cls_lambd = cls_lambd, mf_box_lambd = box_lambd, mf_ctr_lambd = ctr_lambd,
                mf_mask_lambd = mask_lambd, mf_sparse_label = sparse_label,
                mf_num_class = num_class, mf_from_logits = from_logits,
                mf_gt_weidth = fst img_shape, mf_gt_height = snd img_shape, mf_max = 0\<rparr>)"

section \<open>Tensor primitives of the framework\<close>

text \<open>
  The operators of the host framework that the loss blocks call, on nested lists. A box
  is the last axis of a \<open>(..., 4)\<close> tensor: \<open>(x1, y1, x2, y2)\<close>. The framework raises
  when the shapes of operands do not fit; here an element-wise operation follows the
  shorter operand, and every theorem that depends on shapes states them as hypotheses.
\<close>

type_synonym box = "real \<times> real \<times> real \<times> real"

definition has_shape2 :: "nat \<Rightarrow> nat \<Rightarrow> 'a list list \<Rightarrow> bool" where
  "has_shape2 b n t \<longleftrightarrow> length t = b \<and> list_all (\<lambda>r. length r = n) t"

definition has_shape3 :: "nat \<Rightarrow> nat \<Rightarrow> nat \<Rightarrow> 'a list list list \<Rightarrow> bool" where
  "has_shape3 b h w t \<longleftrightarrow>
     length t = b \<and> list_all (\<lambda>m. length m = h \<and> list_all (\<lambda>r. length r = w) m) t"

definition same_shape2 :: "'a list list \<Rightarrow> 'b list list \<Rightarrow> bool" where
  "same_shape2 s t \<longleftrightarrow> length s = length t \<and> list_all2 (\<lambda>x y. length x = length y) s t"

text \<open>The tensor of shape \<open>(B, N, C)\<close> with entry \<open>f b n c\<close> at \<open>(b, n, c)\<close>.\<close>

definition tabulate3 :: "nat \<Rightarrow> nat \<Rightarrow> nat \<Rightarrow> (nat \<Rightarrow> nat \<Rightarrow> nat \<Rightarrow> 'a) \<Rightarrow> 'a list list list" where
  "tabulate3 B N C f = map (\<lambda>b. map (\<lambda>n. map (\<lambda>c. f b n c) [0..<C]) [0..<N]) [0..<B]"

text \<open>A comparison yields the numbers 1 and 0.\<close>

definition as_float :: "bool \<Rightarrow> real" where
  "as_float b = (if b then 1 else 0)"

text \<open>\<^verbatim>\<open>nd.round\<close>: to the nearest integer, halves away from zero.\<close>

definition nd_round :: "real \<Rightarrow> real" where
  "nd_round x = (if 0 \<le> x then of_int \<lfloor>x + 1/2\<rfloor> else - of_int \<lfloor>- x + 1/2\<rfloor>)"

text \<open>\<^verbatim>\<open>nd.arange(n)\<close>.\<close>

definition arange :: "nat \<Rightarrow> real list" where
  "arange n = map real [0..<n]"

text \<open>\<^verbatim>\<open>F.sigmoid\<close>.\<close>

definition sigmoid :: "real \<Rightarrow> real" where
  "sigmoid x = 1 / (1 + exp (- x))"

text \<open>
  \<^verbatim>\<open>x ** y\<close> for a scalar exponent: repeated multiplication for an integral
  exponent, the real power otherwise.
\<close>

definition power_scalar :: "real \<Rightarrow> real \<Rightarrow> real" where
  "power_scalar x y =
     (if y = of_int \<lfloor>y\<rfloor> then (if 0 \<le> y then x ^ nat \<lfloor>y\<rfloor> else 1 / x ^ nat \<lfloor>- y\<rfloor>)
      else x powr y)"

text \<open>
  \<^verbatim>\<open>F.one_hot(label, depth)\<close> of one label: a row of \<open>depth\<close> entries, 1 at the
  label's index; the row of zeros for a label outside \<open>0, ..., depth - 1\<close>.
\<close>

definition nd_one_hot :: "int \<Rightarrow> nat \<Rightarrow> real list" where
  "nd_one_hot l depth = map (\<lambda>c. if int c = l then 1 else 0) [0..<depth]"

text \<open>Element-wise operations on tensors of rank 3, and \<^verbatim>\<open>F.where\<close>.\<close>

definition map3 :: "('a \<Rightarrow> 'b) \<Rightarrow> 'a list list list \<Rightarrow> 'b list list list" where
  "map3 f t = map (map (map f)) t"

definition zip_with3 :: "('a \<Rightarrow> 'b \<Rightarrow> 'c) \<Rightarrow> 'a list list list \<Rightarrow> 'b list list list \<Rightarrow> 'c list list list" where
  "zip_with3 f s t = map2 (map2 (map2 f)) s t"

definition where3 :: "real list list list \<Rightarrow> real list list list \<Rightarrow> real list list list \<Rightarrow> real list list list" where
  "where3 c x y = zip_with3 (\<lambda>c (a, b). if c \<noteq> 0 then a else b) c (zip_with3 Pair x y)"

text \<open>
  \<^verbatim>\<open>F.broadcast_mul(t, s)\<close> for \<open>s\<close> of the rank of \<open>t\<close>, each axis of \<open>s\<close> of
  length 1 or of the length of the axis of \<open>t\<close>: an axis of \<open>s\<close> of length 1 is
  repeated along the axis of \<open>t\<close>.
\<close>

definition bget :: "'a list \<Rightarrow> nat \<Rightarrow> 'a" where
  "bget xs i = (if length xs = 1 then xs ! 0 else xs ! i)"

definition broadcast_mul3 :: "real list list list \<Rightarrow> real list list list \<Rightarrow> real list list list" where
  "broadcast_mul3 t s =
     map (\<lambda>b. map (\<lambda>n. map (\<lambda>c. t ! b ! n ! c * bget (bget (bget s b) n) c)
                 [0..<length (t ! b ! n)]) [0..<length (t ! b)]) [0..<length t]"

text \<open>\<^verbatim>\<open>F.mean\<close> and \<^verbatim>\<open>F.sum\<close> over all entries.\<close>

definition mean :: "real list \<Rightarrow> real" where
  "mean xs = sum_list xs / real (length xs)"

definition sum_all :: "real list list \<Rightarrow> real" where
  "sum_all t = sum_list (map sum_list t)"

text \<open>
  \<^verbatim>\<open>_apply_weighting(F, loss, weight, sample_weight)\<close> of \<^verbatim>\<open>mxnet.gluon.loss\<close>:
  \<^verbatim>\<open>
  if sample_weight is not None:
      loss = F.broadcast_mul(loss, sample_weight)
  if weight is not None:
      loss = loss * weight
  return loss
  \<close>
\<close>

definition apply_weighting ::
  "real list list list \<Rightarrow> real option \<Rightarrow> real list list list option \<Rightarrow> real list list list" where
  "apply_weighting loss weight sample_weight =
     (let loss1 = (case sample_weight of None \<Rightarrow> loss | Some s \<Rightarrow> broadcast_mul3 loss s)
      in case weight of None \<Rightarrow> loss1 | Some w \<Rightarrow> map3 (\<lambda>x. x * w) loss1)"

section \<open>Mask cropping: \<^verbatim>\<open>MaskLoss.crop\<close> and \<^verbatim>\<open>YOLACTMultiBoxLoss.crop\<close>\<close>

text \<open>
  The two methods have the same body:
  \<^verbatim>\<open>
  def crop(self, bboxes, h, w, masks):
      scale = 4
      b = bboxes.shape[0]
      with autograd.pause():
          _h = nd.arange(h, ctx = ctx)
          _w = nd.arange(w, ctx = ctx)
          _h = nd.tile(_h, reps=(b, 1))
          _w = nd.tile(_w, reps=(b, 1))
          x1, y1 = nd.round(bboxes[:, 0]/scale), nd.round(bboxes[:, 1]/scale)
          x2, y2 = nd.round((bboxes[:, 2])/scale), nd.round((bboxes[:, 3])/scale)
          _w = (_w >= x1.expand_dims(axis=-1)) * (_w <= x2.expand_dims(axis=-1))
          _h = (_h >= y1.expand_dims(axis=-1)) * (_h <= y2.expand_dims(axis=-1))
          _mask = nd.batch_dot(_h.expand_dims(axis=-1),  _w.expand_dims(axis=-1), transpose_b=True)
      masks = _mask * masks
      return masks
  \<close>
  \<^verbatim>\<open>batch_dot\<close> of a \<open>(b, h, 1)\<close> with the transpose of a \<open>(b, w, 1)\<close> tensor is the
  outer product of the two rows of each batch entry.
\<close>

definition crop :: "box list \<Rightarrow> nat \<Rightarrow> nat \<Rightarrow> real list list list \<Rightarrow> real list list list" where
  "crop bboxes h w masks =
     (let scale = 4;
          b = length bboxes;
          hs = replicate b (arange h);
          ws = replicate b (arange w);
          x1 = map (\<lambda>(bx1, by1, bx2, by2). nd_round (bx1 / scale)) bboxes;
          y1 = map (\<lambda>(bx1, by1, bx2, by2). nd_round (by1 / scale)) bboxes;
          x2 = map (\<lambda>(bx1, by1, bx2, by2). nd_round (bx2 / scale)) bboxes;
          y2 = map (\<lambda>(bx1, by1, bx2, by2). nd_round (by2 / scale)) bboxes;
          ws' = map2 (\<lambda>row (lo, hi). map (\<lambda>v. as_float (v \<ge> lo) * as_float (v \<le> hi)) row)
                  ws (zip x1 x2);
          hs' = map2 (\<lambda>row (lo, hi). map (\<lambda>v. as_float (v \<ge> lo) * as_float (v \<le> hi)) row)
                  hs (zip y1 y2);
          mask = map2 (\<lambda>hrow wrow. map (\<lambda>a. map (\<lambda>c. a * c) wrow) hrow) hs' ws'
      in map2 (map2 (map2 (*))) mask masks)"

text \<open>One box and a \<open>3 \<times> 3\<close> mask: the box \<open>(2, 2, 6, 6)\<close> scales to rows and columns 1 to 2.\<close>

definition example_boxes :: "box list" where
  "example_boxes = [(2, 2, 6, 6)]"

definition example_masks :: "real list list list" where
  "example_masks = [[[1, 2, 3], [4, 5, 6], [7, 8, 9]]]"

section \<open>\<^verbatim>\<open>IOULoss\<close>\<close>

text \<open>
  \<^verbatim>\<open>IOULoss(return_iou, eps=1e-5, weight=None, batch_axis=0)\<close>; the forward pass reads
  \<^verbatim>\<open>_return_iou\<close> and \<^verbatim>\<open>_eps\<close> only. It returns the loss, or the pair of the loss
  and the tensor of IoU values.
\<close>

record iou_loss =
  il_return_iou :: bool
  il_eps :: real

datatype iou_result = LossOnly real | LossAndIou real "real list list"

text \<open>
  The IoU of one predicted and one ground-truth box, as the element-wise tensor
  operations compute it:
  \<^verbatim>\<open>
  px1, py1, px2, py2 = F.split(pred, num_outputs=4, axis=-1, squeeze_axis=True)
  gx1, gy1, gx2, gy2 = F.split(gt, num_outputs=4, axis=-1, squeeze_axis=True)
  apd = F.abs(px2 - px1 + 1) * F.abs(py2 - py1 + 1)
  agt = F.abs(gx2 - gx1 + 1) * F.abs(gy2 - gy1 + 1)
  iw = F.maximum(F.minimum(px2, gx2) - F.maximum(px1, gx1)+1., 0.)
  ih = F.maximum(F.minimum(py2, gy2) - F.maximum(py1, gy1)+1., 0.)
  ain = iw * ih + 1.
  union = apd + agt - ain + 1.
  ious = F.maximum(ain / union, 0.)
  \<close>
\<close>

definition box_iou :: "box \<Rightarrow> box \<Rightarrow> real" where
  "box_iou p g =
     (case p of (px1, py1, px2, py2) \<Rightarrow> case g of (gx1, gy1, gx2, gy2) \<Rightarrow>
        (let apd = \<bar>px2 - px1 + 1\<bar> * \<bar>py2 - py1 + 1\<bar>;
             agt = \<bar>gx2 - gx1 + 1\<bar> * \<bar>gy2 - gy1 + 1\<bar>;
             iw = max (min px2 gx2 - max px1 gx1 + 1) 0;
             ih = max (min py2 gy2 - max py1 gy1 + 1) 0;
             ain = iw * ih + 1;
             union = apd + agt - ain + 1
         in max (ain / union) 0))"

text \<open>
  \<^verbatim>\<open>
  fg_mask = F.where(label > 0, F.ones_like(label), F.zeros_like(label))
  loss = -F.log(F.minimum(ious + self._eps, 1.)) * fg_mask
  if self._return_iou:
      return F.sum(loss) / F.maximum(F.sum(fg_mask), 1), ious
  return F.sum(loss) / F.maximum(F.sum(fg_mask), 1)
  \<close>
  for \<open>pred\<close> and \<open>gt\<close> of shape \<open>(B, N, 4)\<close> and \<open>label\<close> of shape \<open>(B, N)\<close>.
\<close>

definition IOULoss_forward :: "iou_loss \<Rightarrow> box list list \<Rightarrow> box list list \<Rightarrow> real list list \<Rightarrow> iou_result" where
  "IOULoss_forward self pred gt label =
     (let ious = map2 (map2 box_iou) pred gt;
          fg_mask = map (map (\<lambda>l. if l > 0 then 1 else 0)) label;
          loss = map2 (map2 (\<lambda>i m. - ln (min (i + il_eps self) 1) * m)) ious fg_mask
      in if il_return_iou self
         then LossAndIou (sum_all loss / max (sum_all fg_mask) 1) ious
         else LossOnly (sum_all loss / max (sum_all fg_mask) 1))"

subsection \<open>The formula of the specification\<close>

definition spec_ain :: "box \<Rightarrow> box \<Rightarrow> real" where
  "spec_ain p g =
     (case p of (px1, py1, px2, py2) \<Rightarrow> case g of (gx1, gy1, gx2, gy2) \<Rightarrow>
        max (min px2 gx2 - max px1 gx1 + 1) 0 * max (min py2 gy2 - max py1 gy1 + 1) 0 + 1)"

definition spec_union :: "box \<Rightarrow> box \<Rightarrow> real" where
  "spec_union p g =
     (case p of (px1, py1, px2, py2) \<Rightarrow> case g of (gx1, gy1, gx2, gy2) \<Rightarrow>
        \<bar>px2 - px1 + 1\<bar> * \<bar>py2 - py1 + 1\<bar> + \<bar>gx2 - gx1 + 1\<bar> * \<bar>gy2 - gy1 + 1\<bar> - spec_ain p g + 1)"

definition spec_iou :: "box \<Rightarrow> box \<Rightarrow> real" where
  "spec_iou p g = max (spec_ain p g / spec_union p g) 0"

text \<open>The foreground entries: the positions \<open>(b, n)\<close> with \<open>label[b, n] > 0\<close>.\<close>

definition fg_row :: "real list \<Rightarrow> nat list" where
  "fg_row ls = filter (\<lambda>n. ls ! n > 0) [0..<length ls]"

definition fg_positions :: "real list list \<Rightarrow> (nat \<times> nat) list" where
  "fg_positions label = concat (map (\<lambda>b. map (\<lambda>n. (b, n)) (fg_row (label ! b))) [0..<length label])"

text \<open>
  The sum of \<open>- log (min (ious + eps) 1)\<close> over the foreground entries, divided by
  their number or by 1 when there is none.
\<close>

definition iou_loss_value :: "iou_loss \<Rightarrow> box list list \<Rightarrow> box list list \<Rightarrow> real list list \<Rightarrow> real" where
  "iou_loss_value self pred gt label =
     (\<Sum>(b, n) \<leftarrow> fg_positions label.
          - ln (min (spec_iou (pred ! b ! n) (gt ! b ! n) + il_eps self) 1))
       / max (real (length (fg_positions label))) 1"

text \<open>
  Two box pairs, the first in the foreground: identical boxes (IoU value 5/4 with the
  added ones) and disjoint boxes (1/8).
\<close>

definition example_iou_loss :: iou_loss where
  "example_iou_loss = \<lparr>il_return_iou = True, il_eps = 0\<rparr>"

definition example_pred :: "box list list" where
  "example_pred = [[(0, 0, 1, 1), (0, 0, 1, 1)]]"

definition example_gt :: "box list list" where
  "example_gt = [[(0, 0, 1, 1), (5, 5, 6, 6)]]"

definition example_label :: "real list list" where
  "example_label = [[1, 0]]"

section \<open>\<^verbatim>\<open>FocalLoss.hybrid_forward\<close>\<close>

text \<open>
  \<open>pred\<close> is a tensor of rank 3 with the classes on its last axis, where
  \<^verbatim>\<open>F.one_hot\<close> puts them (\<^verbatim>\<open>self._axis\<close> is stored and never read). A sparse
  label has the shape of \<open>pred\<close> without the last axis and holds class indices; a dense
  label has the shape of \<open>pred\<close>. Which of the three axes is the batch axis is the
  block's \<^verbatim>\<open>batch_axis\<close>.
\<close>

datatype focal_label = SparseLabel "int list list" | DenseLabel "real list list list"

text \<open>\<^verbatim>\<open>self._num_class\<close> as the depth of \<^verbatim>\<open>F.one_hot\<close>.\<close>

definition num_classes :: "focal_loss \<Rightarrow> nat" where
  "num_classes self = nat (int_value (fl_num_class self))"

text \<open>
  The axes of \<^verbatim>\<open>F.mean(loss, axis=a, exclude=True)\<close> for a tensor of rank 3: \<open>a\<close> is
  the one axis that is kept; a negative \<open>a\<close> counts from the last axis; the framework
  rejects an axis outside \<open>-3, ..., 2\<close>.
\<close>

definition kept_axis :: "int \<Rightarrow> py_error + nat" where
  "kept_axis a =
     (if 0 \<le> a \<and> a < 3 then Inr (nat a)
      else if - 3 \<le> a \<and> a < 0 then Inr (nat (a + 3))
      else Inl MXNetError)"

text \<open>
  The lengths of the three axes, read off the first entries. (A tensor of the framework
  has no axis of length 0.)
\<close>

definition shape3 :: "'a list list list \<Rightarrow> nat \<times> nat \<times> nat" where
  "shape3 t =
     (length t,
      (case t of [] \<Rightarrow> 0 | m # _ \<Rightarrow> length m),
      (case t of [] \<Rightarrow> 0 | m # _ \<Rightarrow> (case m of [] \<Rightarrow> 0 | r # _ \<Rightarrow> length r)))"

text \<open>
  The entries that a reduction with \<^verbatim>\<open>exclude=True\<close> combines: one list for every
  index \<open>i\<close> of the kept axis \<open>k\<close>, holding the entries whose index on axis \<open>k\<close> is \<open>i\<close>.
\<close>

definition along_axis :: "nat \<Rightarrow> real list list list \<Rightarrow> real list list" where
  "along_axis k t =
     (case shape3 t of (d0, d1, d2) \<Rightarrow>
        if k = 0 then map concat t
        else if k = 1 then map (\<lambda>i. concat (map (\<lambda>b. map (\<lambda>c. t ! b ! i ! c) [0..<d2]) [0..<d0])) [0..<d1]
        else map (\<lambda>i. concat (map (\<lambda>b. map (\<lambda>n. t ! b ! n ! i) [0..<d1]) [0..<d0])) [0..<d2])"

definition mean_exclude :: "int \<Rightarrow> real list list list \<Rightarrow> py_error + real list" where
  "mean_exclude a t = (case kept_axis a of Inl e \<Rightarrow> Inl e | Inr k \<Rightarrow> Inr (map mean (along_axis k t)))"

definition sum_exclude :: "int \<Rightarrow> real list list list \<Rightarrow> py_error + real list" where
  "sum_exclude a t = (case kept_axis a of Inl e \<Rightarrow> Inl e | Inr k \<Rightarrow> Inr (map sum_list (along_axis k t)))"

text \<open>
  The forward pass from the one-hot mask on:
  \<^verbatim>\<open>
  if not self._from_logits:
      pred = F.sigmoid(pred)
  ...
  pt = F.where(one_hot, pred, 1 - pred)
  t = F.ones_like(one_hot)
  alpha = F.where(one_hot, self._alpha * t, (1 - self._alpha) * t)
  loss = -alpha * ((1 - pt) ** self._gamma) * F.log(F.minimum(pt + self._eps, 1))
  loss = _apply_weighting(F, loss, self._weight, sample_weight)
  if self._size_average:
      return F.mean(loss, axis=self._batch_axis, exclude=True)
  else:
      return F.sum(loss, axis=self._batch_axis, exclude=True)
  \<close>
\<close>

definition focal_reduce ::
  "focal_loss \<Rightarrow> real list list list \<Rightarrow> real list list list \<Rightarrow> real list list list option
     \<Rightarrow> py_error + real list" where
  "focal_reduce self pred0 one_hot sample_weight =
     (let pred = (if \<not> fl_from_logits self then map3 sigmoid pred0 else pred0);
          pt = where3 one_hot pred (map3 (\<lambda>p. 1 - p) pred);
          t = map3 (\<lambda>_. 1) one_hot;
          alpha = where3 one_hot (map3 (\<lambda>x. fl_alpha self * x) t) (map3 (\<lambda>x. (1 - fl_alpha self) * x) t);
          loss = zip_with3 (\<lambda>a p. - a * power_scalar (1 - p) (fl_gamma self) * ln (min (p + fl_eps self) 1))
                   alpha pt;
          loss = apply_weighting loss (fl_weight self) sample_weight
      in if fl_size_average self then mean_exclude (fl_batch_axis self) loss
         else sum_exclude (fl_batch_axis self) loss)"

text \<open>
  \<^verbatim>\<open>
  if self._sparse_label:
      one_hot = F.one_hot(label, self._num_class)
  else:
      one_hot = label > 0
  \<close>
  A label of the other kind than the block was built for has the wrong rank for
  \<^verbatim>\<open>F.where\<close>, which the framework rejects.
\<close>

definition FocalLoss_forward ::
  "focal_loss \<Rightarrow> real list list list \<Rightarrow> focal_label \<Rightarrow> real list list list option \<Rightarrow> py_error + real list" where
  "FocalLoss_forward self pred label sample_weight =
     (case label of
        SparseLabel l \<Rightarrow>
          if fl_sparse_label self
          then focal_reduce self pred (map (map (\<lambda>l. nd_one_hot l (num_classes self))) l) sample_weight
          else Inl MXNetError
      | DenseLabel d \<Rightarrow>
          if fl_sparse_label self then Inl MXNetError
          else focal_reduce self pred (map3 (\<lambda>x. as_float (x > 0)) d) sample_weight)"

subsection \<open>The formula of the specification\<close>

text \<open>
  \<open>p_t\<close>, \<open>alpha_t\<close> and the focal term of one entry; \<open>hot\<close> says whether the entry
  is at a one-hot position, that is, whether its class index is the label.
\<close>

definition focal_p_t :: "focal_loss \<Rightarrow> real \<Rightarrow> bool \<Rightarrow> real" where
  "focal_p_t self x hot =
     (let p = (if fl_from_logits self then x else sigmoid x) in if hot then p else 1 - p)"

definition focal_alpha_t :: "focal_loss \<Rightarrow> bool \<Rightarrow> real" where
  "focal_alpha_t self hot = (if hot then fl_alpha self else 1 - fl_alpha self)"

definition focal_term :: "focal_loss \<Rightarrow> real \<Rightarrow> bool \<Rightarrow> real" where
  "focal_term self x hot =
     - focal_alpha_t self hot * power_scalar (1 - focal_p_t self x hot) (fl_gamma self)
       * ln (min (focal_p_t self x hot + fl_eps self) 1)"

text \<open>
  The entries of one batch element: for a tensor of shape \<open>(B, N, C)\<close> with entry
  \<open>f b n c\<close> and batch axis \<open>k\<close>, the entries over the two other axes at index \<open>i\<close> of
  axis \<open>k\<close>. \<open>batch_size\<close> is the length of axis \<open>k\<close>.
\<close>

definition batch_element :: "nat \<Rightarrow> nat \<Rightarrow> nat \<Rightarrow> nat \<Rightarrow> (nat \<Rightarrow> nat \<Rightarrow> nat \<Rightarrow> real) \<Rightarrow> nat \<Rightarrow> real list" where
  "batch_element k B N C f i =
     (if k = 0 then concat (map (\<lambda>n. map (\<lambda>c. f i n c) [0..<C]) [0..<N])
      else if k = 1 then concat (map (\<lambda>b. map (\<lambda>c. f b i c) [0..<C]) [0..<B])
      else concat (map (\<lambda>b. map (\<lambda>n. f b n i) [0..<N]) [0..<B]))"

definition batch_size :: "nat \<Rightarrow> nat \<Rightarrow> nat \<Rightarrow> nat \<Rightarrow> nat" where
  "batch_size k B N C = (if k = 0 then B else if k = 1 then N else C)"

definition focal_reduction :: "focal_loss \<Rightarrow> real list \<Rightarrow> real" where
  "focal_reduction self xs = (if fl_size_average self then mean xs else sum_list xs)"

text \<open>
  The output as the claim states it, for \<open>pred\<close> of shape \<open>(B, N, num_class)\<close> and batch
  axis \<open>k\<close>: no weight. The entry at \<open>(b, n, c)\<close> is at a one-hot position when \<open>c\<close> is the
  label at \<open>(b, n)\<close>.
\<close>

definition focal_claimed ::
  "focal_loss \<Rightarrow> nat \<Rightarrow> nat \<Rightarrow> nat \<Rightarrow> real list list list \<Rightarrow> int list list \<Rightarrow> real list" where
  "focal_claimed self k B N pred label =
     map (\<lambda>i. focal_reduction self
            (batch_element k B N (num_classes self)
               (\<lambda>b n c. focal_term self (pred ! b ! n ! c) (int c = label ! b ! n)) i))
       [0..<batch_size k B N (num_classes self)]"

text \<open>
  The output with the weights of \<^verbatim>\<open>_apply_weighting\<close>: the entry of
  \<^verbatim>\<open>sample_weight\<close> broadcast to the position and the global \<^verbatim>\<open>weight\<close>, each
  1 when absent.
\<close>

definition weight_factor :: "real option \<Rightarrow> real" where
  "weight_factor w = (case w of None \<Rightarrow> 1 | Some v \<Rightarrow> v)"

definition sample_weight_at :: "real list list list option \<Rightarrow> nat \<Rightarrow> nat \<Rightarrow> nat \<Rightarrow> real" where
  "sample_weight_at sw b n c = (case sw of None \<Rightarrow> 1 | Some s \<Rightarrow> bget (bget (bget s b) n) c)"

definition focal_weighted ::
  "focal_loss \<Rightarrow> nat \<Rightarrow> nat \<Rightarrow> nat \<Rightarrow> real list list list \<Rightarrow> int list list \<Rightarrow> real list list list option
     \<Rightarrow> real list" where
  "focal_weighted self k B N pred label sw =
     map (\<lambda>i. focal_reduction self
            (batch_element k B N (num_classes self)
               (\<lambda>b n c. focal_term self (pred ! b ! n ! c) (int c = label ! b ! n)
                          * (sample_weight_at sw b n c * weight_factor (fl_weight self))) i))
       [0..<batch_size k B N (num_classes self)]"

text \<open>
  A sample weight that \<^verbatim>\<open>F.broadcast_mul\<close> accepts for a loss of shape \<open>(B, N, C)\<close>
  without enlarging it: a tensor of rank 3 each of whose axes has length 1 or the length
  of the loss's axis.
\<close>

definition fits_axis :: "nat \<Rightarrow> nat \<Rightarrow> bool" where
  "fits_axis d n \<longleftrightarrow> d = 1 \<or> d = n"

definition sample_weight_fits :: "nat \<Rightarrow> nat \<Rightarrow> nat \<Rightarrow> real list list list option \<Rightarrow> bool" where
  "sample_weight_fits B N C sw =
     (case sw of None \<Rightarrow> True
      | Some s \<Rightarrow> (case shape3 s of (d0, d1, d2) \<Rightarrow>
          has_shape3 d0 d1 d2 s \<and> 0 < d0 \<and> 0 < d1 \<and> 0 < d2 \<and>
          fits_axis d0 B \<and> fits_axis d1 N \<and> fits_axis d2 C))"

text \<open>
  \<^verbatim>\<open>FocalLoss(weight=2.0, num_class=1, from_logits=True, eps=0)\<close>, applied below to the
  single prediction 1/2 at the position of its label.
\<close>

definition weighted_focal :: focal_loss where
  "weighted_focal =
     \<lparr>fl_weight = Some 2, fl_batch_axis = 0, fl_axis = -1, fl_alpha = 1/4, fl_gamma = 2,
      fl_sparse_label = True, fl_num_class = PyInt 1, fl_from_logits = True, fl_eps = 0,
      fl_size_average = True\<rparr>"

text \<open>
  \<^verbatim>\<open>FocalLoss(batch_axis=1, weight=2.0, num_class=2, from_logits=True, eps=0)\<close>, and
  inputs for it: \<open>pred\<close> of shape \<open>(2, 1, 2)\<close>, a label of shape \<open>(2, 1)\<close> and a sample
  weight of shape \<open>(2, 1, 1)\<close>. The batch axis has length 1.
\<close>

definition axis_focal :: focal_loss where
  "axis_focal =
     \<lparr>fl_weight = Some 2, fl_batch_axis = 1, fl_axis = -1, fl_alpha = 1/4, fl_gamma = 2,
      fl_sparse_label = True, fl_num_class = PyInt 2, fl_from_logits = True, fl_eps = 0,
      fl_size_average = True\<rparr>"

definition axis_pred :: "real list list list" where
  "axis_pred = [[[1/2, 1/2]], [[1/2, 1/2]]]"

definition axis_label :: "int list list" where
  "axis_label = [[0], [1]]"

definition axis_sample_weight :: "real list list list" where
  "axis_sample_weight = [[[3]], [[1]]]"


section \<open>\<^verbatim>\<open>SSDMultiBoxLoss\<close>\<close>

subsection \<open>More primitives\<close>

text \<open>
  \<^verbatim>\<open>_as_list\<close>: an argument is one array or a list of arrays, one per device.
  \<^verbatim>\<open>
  def _as_list(arr):
      if not isinstance(arr, (list, tuple)):
          return [arr]
      return arr
  \<close>
\<close>

datatype 'a arrays = Single 'a | Several "'a list"

definition as_list :: "'a arrays \<Rightarrow> 'a list" where
  "as_list arr = (case arr of Single a \<Rightarrow> [a] | Several as \<Rightarrow> as)"

text \<open>\<^verbatim>\<open>nd.log_softmax(x, axis=-1)\<close> on one row of class scores.\<close>

definition log_softmax :: "real list \<Rightarrow> real list" where
  "log_softmax xs = map (\<lambda>x. x - ln (sum_list (map exp xs))) xs"

text \<open>
  \<^verbatim>\<open>nd.pick(x, index, axis=-1)\<close> on one row: the entry at the index, which is clipped
  into the row (the operator's default mode).
\<close>

definition pick :: "real list \<Rightarrow> int \<Rightarrow> real" where
  "pick xs i = xs ! nat (max 0 (min i (int (length xs) - 1)))"

text \<open>
  \<^verbatim>\<open>argsort\<close> along one row, ascending: the indices of the row in the order of their
  entries. Indices of equal entries keep their order here; the framework does not fix
  the order of ties.
\<close>

definition argsort :: "'a::linorder list \<Rightarrow> nat list" where
  "argsort xs = sort_key (\<lambda>i. xs ! i) [0..<length xs]"

text \<open>
  \<^verbatim>\<open>_reshape_like(F, x, y)\<close>: the entries of \<open>x\<close> in row-major order, in the shape of
  \<open>y\<close>.
\<close>

fun chop :: "nat list \<Rightarrow> 'a list \<Rightarrow> 'a list list" where
  "chop [] xs = []"
| "chop (n # ns) xs = take n xs # chop ns (drop n xs)"

definition reshape_like :: "real list list list \<Rightarrow> 'a list list list \<Rightarrow> real list list list" where
  "reshape_like x y =
     chop (map length y) (chop (concat (map (map length) y)) (concat (concat x)))"

text \<open>\<^verbatim>\<open>nd.sum(x * 0)\<close>: an array of shape \<open>(1)\<close>.\<close>

definition zero_sum3 :: "real list list list \<Rightarrow> real list" where
  "zero_sum3 x = [sum_list (concat (concat (map3 (\<lambda>v. v * 0) x)))]"

subsection \<open>The block\<close>

text \<open>
  \<^verbatim>\<open>
  def __init__(self, negative_mining_ratio=3, rho=1.0, lambd=1.0, min_hard_negatives=0, **kwargs):
      self._negative_mining_ratio = max(0, negative_mining_ratio)
      self._rho = rho
      self._lambd = lambd
      self._min_hard_negatives = max(0, min_hard_negatives)
  \<close>
\<close>

record ssd_loss =
  ssd_negative_mining_ratio :: real
  ssd_rho :: real
  ssd_lambd :: real
  ssd_min_hard_negatives :: real

definition SSDMultiBoxLoss_init :: "real \<Rightarrow> real \<Rightarrow> real \<Rightarrow> real \<Rightarrow> ssd_loss" where
  "SSDMultiBoxLoss_init negative_mining_ratio rho lambd min_hard_negatives =
     \<lparr>ssd_negative_mining_ratio = max 0 negative_mining_ratio, ssd_rho = rho, ssd_lambd = lambd,
      ssd_min_hard_negatives = max 0 min_hard_negatives\<rparr>"

text \<open>
  The tensors of one device: class scores \<open>(B, N, C)\<close>, box predictions and box targets
  \<open>(B, N, 4)\<close>, class targets \<open>(B, N)\<close> (class indices, positive for an object).
  \<^verbatim>\<open>
  num_pos = []
  for cp, bp, ct, bt in zip(*[cls_pred, box_pred, cls_target, box_target]):
      pos_samples = (ct > 0)
      num_pos.append(pos_samples.sum())
  num_pos_all = sum([p.asscalar() for p in num_pos])
  \<close>
\<close>

type_synonym device = "real list list list \<times> real list list list \<times> int list list \<times> real list list list"

definition zip4 :: "'a list \<Rightarrow> 'b list \<Rightarrow> 'c list \<Rightarrow> 'd list \<Rightarrow> ('a \<times> 'b \<times> 'c \<times> 'd) list" where
  "zip4 ws xs ys zs = zip ws (zip xs (zip ys zs))"

definition pos_samples_sum :: "int list list \<Rightarrow> real" where
  "pos_samples_sum ct = sum_all (map (map (\<lambda>c. as_float (c > 0))) ct)"

definition num_pos_all :: "device list \<Rightarrow> real" where
  "num_pos_all devices = sum_list (map (\<lambda>(cp, bp, ct, bt). pos_samples_sum ct) devices)"

text \<open>
  The classification loss of one device before the sum over anchors: per-anchor cross
  entropy, double \<^verbatim>\<open>argsort\<close> of its negation masked to the negatives, and the mask.
  \<^verbatim>\<open>
  pred = nd.log_softmax(cp, axis=-1)
  pos = ct > 0
  cls_loss = -nd.pick(pred, ct, axis=-1, keepdims=False)
  rank = (cls_loss * (pos - 1)).argsort(axis=1).argsort(axis=1)
  hard_negative = rank < nd.maximum(self._min_hard_negatives, pos.sum(axis=1)
                                    * self._negative_mining_ratio).expand_dims(-1)
  # mask out if not positive or negative
  cls_loss = nd.where((pos + hard_negative) > 0, cls_loss, nd.zeros_like(cls_loss))
  \<close>
\<close>

definition cross_entropy :: "real list list list \<Rightarrow> int list list \<Rightarrow> real list list" where
  "cross_entropy cp ct = map2 (map2 (\<lambda>p c. - pick p c)) (map (map log_softmax) cp) ct"

definition mining_rank :: "real list list \<Rightarrow> real list list \<Rightarrow> nat list list" where
  "mining_rank cls_loss pos =
     map (\<lambda>row. argsort (argsort row)) (map2 (map2 (\<lambda>l p. l * (p - 1))) cls_loss pos)"

definition mined_cls_loss :: "real \<Rightarrow> real \<Rightarrow> real list list list \<Rightarrow> int list list \<Rightarrow> real list list" where
  "mined_cls_loss min_hard_negatives negative_mining_ratio cp ct =
     (let pos = map (map (\<lambda>c. as_float (c > 0))) ct;
          cls_loss = cross_entropy cp ct;
          rank = mining_rank cls_loss pos;
          limit = map (\<lambda>prow. max min_hard_negatives (sum_list prow * negative_mining_ratio)) pos;
          hard_negative = map2 (\<lambda>rrow lim. map (\<lambda>r. as_float (real r < lim)) rrow) rank limit
      in map2 (map2 (\<lambda>(p, h) l. if p + h > 0 then l else 0)) (map2 zip pos hard_negative) cls_loss)"

text \<open>
  The box loss of one device before the sum: smooth L1 on the positive anchors.
  \<^verbatim>\<open>
  bp = _reshape_like(nd, bp, bt)
  box_loss = nd.abs(bp - bt)
  box_loss = nd.where(box_loss > self._rho, box_loss - 0.5 * self._rho,
                      (0.5 / self._rho) * nd.square(box_loss))
  # box loss only apply to positive samples
  box_loss = box_loss * pos.expand_dims(axis=-1)
  \<close>
\<close>

definition positive_box_loss :: "real \<Rightarrow> real list list list \<Rightarrow> int list list \<Rightarrow> real list list list \<Rightarrow> real list list list" where
  "positive_box_loss rho bp ct bt =
     (let pos = map (map (\<lambda>c. as_float (c > 0))) ct;
          box_loss = zip_with3 (\<lambda>p t. \<bar>p - t\<bar>) (reshape_like bp bt) bt;
          box_loss = map3 (\<lambda>x. if x > rho then x - 0.5 * rho else (0.5 / rho) * x\<^sup>2) box_loss
      in map2 (map2 (\<lambda>row p. map (\<lambda>x. x * p) row)) box_loss pos)"

text \<open>
  \<^verbatim>\<open>nd.sum(x, axis=0, exclude=True)\<close>: one sum per batch element.
\<close>

definition sum_per_sample2 :: "real list list \<Rightarrow> real list" where
  "sum_per_sample2 t = map sum_list t"

definition sum_per_sample3 :: "real list list list \<Rightarrow> real list" where
  "sum_per_sample3 t = map (\<lambda>m. sum_list (concat m)) t"

text \<open>
  The forward pass. It returns \<^verbatim>\<open>sum_losses, cls_losses, box_losses\<close>, each with one
  array per device.
  \<^verbatim>\<open>
  if num_pos_all < 1 and self._min_hard_negatives < 1:
      # no positive samples and no hard negatives, return dummy losses
      cls_losses = [nd.sum(cp * 0) for cp in cls_pred]
      box_losses = [nd.sum(bp * 0) for bp in box_pred]
      sum_losses = [nd.sum(cp * 0) + nd.sum(bp * 0) for cp, bp in zip(cls_pred, box_pred)]
      return sum_losses, cls_losses, box_losses
  ...
  for cp, bp, ct, bt in zip(*[cls_pred, box_pred, cls_target, box_target]):
      ...
      cls_losses.append(nd.sum(cls_loss, axis=0, exclude=True) / max(1., num_pos_all))
      ...
      box_losses.append(nd.sum(box_loss, axis=0, exclude=True) / max(1., num_pos_all))
      sum_losses.append(cls_losses[-1] + self._lambd * box_losses[-1])
  return sum_losses, cls_losses, box_losses
  \<close>
\<close>

definition ssd_device_cls :: "ssd_loss \<Rightarrow> real \<Rightarrow> device \<Rightarrow> real list" where
  "ssd_device_cls self n dev =
     (case dev of (cp, bp, ct, bt) \<Rightarrow>
        map (\<lambda>x. x / max 1 n)
          (sum_per_sample2 (mined_cls_loss (ssd_min_hard_negatives self) (ssd_negative_mining_ratio self) cp ct)))"

definition ssd_device_box :: "ssd_loss \<Rightarrow> real \<Rightarrow> device \<Rightarrow> real list" where
  "ssd_device_box self n dev =
     (case dev of (cp, bp, ct, bt) \<Rightarrow>
        map (\<lambda>x. x / max 1 n) (sum_per_sample3 (positive_box_loss (ssd_rho self) bp ct bt)))"

definition SSDMultiBoxLoss_forward ::
  "ssd_loss \<Rightarrow> real list list list arrays \<Rightarrow> real list list list arrays \<Rightarrow> int list list arrays
     \<Rightarrow> real list list list arrays \<Rightarrow> real list list \<times> real list list \<times> real list list" where
  "SSDMultiBoxLoss_forward self cls_pred0 box_pred0 cls_target0 box_target0 =
     (let cls_pred = as_list cls_pred0; box_pred = as_list box_pred0;
          cls_target = as_list cls_target0; box_target = as_list box_target0;
          devices = zip4 cls_pred box_pred cls_target box_target;
          n = num_pos_all devices
      in if n < 1 \<and> ssd_min_hard_negatives self < 1 then
           (map2 (\<lambda>cp bp. map2 (+) (zero_sum3 cp) (zero_sum3 bp)) cls_pred box_pred,
            map zero_sum3 cls_pred,
            map zero_sum3 box_pred)
         else
           (map (\<lambda>dev. map2 (\<lambda>c b. c + ssd_lambd self * b) (ssd_device_cls self n dev) (ssd_device_box self n dev))
              devices,
            map (ssd_device_cls self n) devices,
            map (ssd_device_box self n) devices))"

subsection \<open>Hard-negative mining in the words of the specification\<close>

text \<open>
  For one row of anchors, with per-anchor cross-entropy loss \<open>ce\<close> and class targets
  \<open>ct\<close>: the negated loss masked to the negatives (0 at a positive anchor); the rank of
  every anchor by double \<^verbatim>\<open>argsort\<close> of it; the number of positive anchors; the number
  of hard negatives kept; and what anchor \<open>j\<close> contributes to the classification loss.
\<close>

definition masked_negated_loss :: "real list \<Rightarrow> int list \<Rightarrow> real list" where
  "masked_negated_loss ce ct = map2 (\<lambda>l c. if c > 0 then 0 else - l) ce ct"

definition anchor_rank :: "real list \<Rightarrow> int list \<Rightarrow> nat list" where
  "anchor_rank ce ct = argsort (argsort (masked_negated_loss ce ct))"

definition num_positive :: "int list \<Rightarrow> nat" where
  "num_positive ct = length (filter (\<lambda>c. 0 < c) ct)"

definition mining_limit :: "ssd_loss \<Rightarrow> int list \<Rightarrow> real" where
  "mining_limit self ct =
     max (ssd_min_hard_negatives self) (real (num_positive ct) * ssd_negative_mining_ratio self)"

definition contribution :: "ssd_loss \<Rightarrow> real list \<Rightarrow> int list \<Rightarrow> nat \<Rightarrow> real" where
  "contribution self ce ct j =
     (if ct ! j > 0 then ce ! j
      else if real (anchor_rank ce ct ! j) < mining_limit self ct then ce ! j
      else 0)"

text \<open>The number of positive class targets on all devices.\<close>

definition total_positive :: "device list \<Rightarrow> nat" where
  "total_positive devices = sum_list (map (\<lambda>(cp, bp, ct, bt). sum_list (map num_positive ct)) devices)"

text \<open>
  The device tuples the forward pass iterates over, the condition of its early return,
  and the components of its result.
\<close>

definition ssd_devices ::
  "real list list list arrays \<Rightarrow> real list list list arrays \<Rightarrow> int list list arrays
     \<Rightarrow> real list list list arrays \<Rightarrow> device list" where
  "ssd_devices cls_pred box_pred cls_target box_target =
     zip4 (as_list cls_pred) (as_list box_pred) (as_list cls_target) (as_list box_target)"

definition ssd_early_return :: "ssd_loss \<Rightarrow> device list \<Rightarrow> bool" where
  "ssd_early_return self devices \<longleftrightarrow> num_pos_all devices < 1 \<and> ssd_min_hard_negatives self < 1"

definition sum_losses :: "'a \<times> 'b \<times> 'c \<Rightarrow> 'a" where
  "sum_losses r = fst r"

definition cls_losses :: "'a \<times> 'b \<times> 'c \<Rightarrow> 'b" where
  "cls_losses r = fst (snd r)"

definition box_losses :: "'a \<times> 'b \<times> 'c \<Rightarrow> 'c" where
  "box_losses r = snd (snd r)"

text \<open>
  One sample of three anchors and two classes. The first anchor is positive, the other
  two are background with cross-entropy losses \<open>ln 2\<close> and \<open>ln 4\<close>; with mining
  ratio 1 one negative is kept.
\<close>

definition example_ssd :: ssd_loss where
  "example_ssd = SSDMultiBoxLoss_init 1 1 1 0"

definition example_cls_pred :: "real list list list" where
  "example_cls_pred = [[[0, 0], [0, 0], [0, ln 3]]]"

definition example_box :: "real list list list" where
  "example_box = [[[0, 0, 0, 0], [0, 0, 0, 0], [0, 0, 0, 0]]]"

definition example_cls_target :: "int list list" where
  "example_cls_target = [[1, 0, 0]]"

definition background_target :: "int list list" where
  "background_target = [[0, 0, 0]]"

text \<open>The same array on two devices.\<close>

definition two_devices :: "'a \<Rightarrow> 'a arrays" where
  "two_devices a = Several [a, a]"

section \<open>Instance-mask losses\<close>

subsection \<open>\<^verbatim>\<open>mask_loss\<close> of \<^verbatim>\<open>YOLACTMultiBoxLoss\<close> and of \<^verbatim>\<open>MaskLoss\<close>\<close>

text \<open>
  \<^verbatim>\<open>self.SBCELoss\<close> is the framework's block
  \<^verbatim>\<open>gluon.loss.SigmoidBinaryCrossEntropyLoss(from_sigmoid=True)\<close>. It is a parameter
  here: a function from predicted and target masks of shape \<open>(P, h, w)\<close> to one loss
  per instance.
\<close>

type_synonym sbce_loss = "real list list list \<Rightarrow> real list list list \<Rightarrow> real list"

text \<open>\<^verbatim>\<open>nd.take(a, idx)\<close> along the first axis; an index is clipped into the array.\<close>

definition nd_take :: "'a list \<Rightarrow> nat list \<Rightarrow> 'a list" where
  "nd_take a idx = map (\<lambda>i. a ! min i (length a - 1)) idx"

text \<open>
  \<^verbatim>\<open>nd.dot(A, M)\<close> of \<open>A\<close> of shape \<open>(P, K)\<close> and \<open>M\<close> of shape \<open>(K, h, w)\<close>:
  the \<open>(P, h, w)\<close> tensor of the sums over \<open>k\<close> of \<open>A[p, k] * M[k, y, x]\<close>.
\<close>

definition mask_hw :: "real list list list \<Rightarrow> nat \<times> nat" where
  "mask_hw M = (case M of [] \<Rightarrow> (0, 0) | m # _ \<Rightarrow> (length m, (case m of [] \<Rightarrow> 0 | r # _ \<Rightarrow> length r)))"

definition nd_dot :: "real list list \<Rightarrow> real list list list \<Rightarrow> real list list list" where
  "nd_dot A M =
     (case mask_hw M of (h, w) \<Rightarrow>
        map (\<lambda>a. map (\<lambda>y. map (\<lambda>x. \<Sum>k\<leftarrow>[0..<length M]. a ! k * M ! k ! y ! x) [0..<w]) [0..<h]) A)"

text \<open>
  One row of \<^verbatim>\<open>samples.sum(axis=-1).asnumpy().astype('int')\<close> for
  \<^verbatim>\<open>samples = matches >= 0\<close>.
\<close>

definition pos_num :: "int list \<Rightarrow> nat" where
  "pos_num row = nat \<lfloor>sum_list (map (\<lambda>m. as_float (m \<ge> 0)) row)\<rfloor>"

text \<open>
  The body of the loop over the samples of a batch, for sample \<open>i\<close>, in
  \<^verbatim>\<open>YOLACTMultiBoxLoss.mask_loss\<close>:
  \<^verbatim>\<open>
  samples = matches >= 0
  pos_num = samples.sum(axis=-1).asnumpy().astype('int')
  rank = (-matches).argsort(axis=-1)
  losses = []
  for i in range(mask_pred.shape[0]):
      if pos_num[i] == 0:
          losses.append(nd.zeros(shape=(1,), ctx=mask_pred.context))
          continue
      idx = rank[i, :pos_num[i]]
      pos_bboxe = nd.take(bt_target[i], idx)
      area = (pos_bboxe[:, 3] - pos_bboxe[:, 1]) * (pos_bboxe[:, 2] - pos_bboxe[:, 0])
      weight = self.gt_weidth * self.gt_height / area
      mask_gt = mask_target[i, matches[i, idx], :, :]
      mask_preds = nd.sigmoid(nd.dot(nd.take(mask_eoc[i], idx), mask_pred[i]))
      _, h, w = mask_preds.shape
      mask_preds = self.crop(pos_bboxe, h, w, mask_preds)
      loss = self.SBCELoss(mask_preds, mask_gt) * weight
      losses.append(nd.mean(loss))
  return nd.concat(*losses, dim=0)
  \<close>
  \<^verbatim>\<open>MaskLoss.mask_loss\<close> differs only in taking the shape before the sigmoid.
  The arguments are the prototype masks \<open>mask_pred[i]\<close> of shape \<open>(K, h, w)\<close>, the mask
  coefficients \<open>mask_eoc[i]\<close> of shape \<open>(N, K)\<close>, the ground-truth masks
  \<open>mask_target[i]\<close>, the index of the matched ground truth of each anchor
  \<open>matches[i]\<close> (negative for none) and the matched boxes \<open>bt_target[i]\<close>.
\<close>

definition mask_loss_sample ::
  "real \<Rightarrow> real \<Rightarrow> sbce_loss \<Rightarrow> real list list list \<Rightarrow> real list list \<Rightarrow> real list list list
     \<Rightarrow> int list \<Rightarrow> box list \<Rightarrow> real list" where
  "mask_loss_sample gt_weidth gt_height SBCELoss mask_pred_i mask_eoc_i mask_target_i matches_i bt_target_i =
     (let rank = argsort (map uminus matches_i) in
      if pos_num matches_i = 0 then [0]
      else
        (let idx = take (pos_num matches_i) rank;
             pos_bboxe = nd_take bt_target_i idx;
             area = map (\<lambda>(bx1, by1, bx2, by2). (by2 - by1) * (bx2 - bx1)) pos_bboxe;
             weight = map (\<lambda>a. gt_weidth * gt_height / a) area;
             mask_gt = map (\<lambda>j. mask_target_i ! nat (matches_i ! j)) idx;
             mask_preds = map3 sigmoid (nd_dot (nd_take mask_eoc_i idx) mask_pred_i);
             (h, w) = mask_hw mask_pred_i;
             mask_preds = crop pos_bboxe h w mask_preds;
             loss = map2 (*) (SBCELoss mask_preds mask_gt) weight
         in [mean loss]))"

definition mask_loss ::
  "real \<Rightarrow> real \<Rightarrow> sbce_loss \<Rightarrow> real list list list list \<Rightarrow> real list list list
     \<Rightarrow> real list list list list \<Rightarrow> int list list \<Rightarrow> box list list \<Rightarrow> real list" where
  "mask_loss gt_weidth gt_height SBCELoss mask_pred mask_eoc mask_target matches bt_target =
     concat (map (\<lambda>i. mask_loss_sample gt_weidth gt_height SBCELoss
                        (mask_pred ! i) (mask_eoc ! i) (mask_target ! i) (matches ! i) (bt_target ! i))
               [0..<length mask_pred])"

subsection \<open>\<^verbatim>\<open>MaskLoss\<close>\<close>

text \<open>
  \<^verbatim>\<open>
  def __init__(self, mask_lambd=1.25, **kwargs):
      self.gt_weidth = 740
      self.gt_height = 740
      self.mask_lambd = mask_lambd
  def forward(self, box_target, gt_masks, matches, masks, maskeoc_pred):
      mask_loss = self.mask_lambd * self.mask_loss(masks, maskeoc_pred, gt_masks, matches, box_target)
      return nd.mean(mask_loss)
  \<close>
\<close>

definition MaskLoss_forward ::
  "real \<Rightarrow> sbce_loss \<Rightarrow> box list list \<Rightarrow> real list list list list \<Rightarrow> int list list
     \<Rightarrow> real list list list list \<Rightarrow> real list list list \<Rightarrow> real" where
  "MaskLoss_forward mask_lambd SBCELoss box_target gt_masks matches masks maskeoc_pred =
     mean (map (\<lambda>x. mask_lambd * x) (mask_loss 740 740 SBCELoss masks maskeoc_pred gt_masks matches box_target))"

subsection \<open>\<^verbatim>\<open>YOLACTMultiBoxLoss\<close>\<close>

text \<open>
  \<^verbatim>\<open>
  def __init__(self, negative_mining_ratio=3, rho=1.0, box_lambd=1.5, conf_lambd=1.0, mask_lambd=1.25,
               min_hard_negatives=0, **kwargs):
      self._negative_mining_ratio = max(0, negative_mining_ratio)
      self._rho = rho
      self.box_lambd = box_lambd
      self.conf_lambd = conf_lambd
      self.mask_lambd = mask_lambd
      self.gt_weidth = 550
      self.gt_height = 550
      self._min_hard_negatives = max(0, min_hard_negatives)
  \<close>
\<close>

record yolact_loss =
  yl_negative_mining_ratio :: real
  yl_rho :: real
  yl_box_lambd :: real
  yl_conf_lambd :: real
  yl_mask_lambd :: real
  yl_gt_weidth :: real
  yl_gt_height :: real
  yl_min_hard_negatives :: real

definition YOLACTMultiBoxLoss_init :: "real \<Rightarrow> real \<Rightarrow> real \<Rightarrow> real \<Rightarrow> real \<Rightarrow> real \<Rightarrow> yolact_loss" where
  "YOLACTMultiBoxLoss_init negative_mining_ratio rho box_lambd conf_lambd mask_lambd min_hard_negatives =
     \<lparr>yl_negative_mining_ratio = max 0 negative_mining_ratio, yl_rho = rho, yl_box_lambd = box_lambd,
      yl_conf_lambd = conf_lambd, yl_mask_lambd = mask_lambd, yl_gt_weidth = 550, yl_gt_height = 550,
      yl_min_hard_negatives = max 0 min_hard_negatives\<rparr>"

text \<open>
  The mask arguments of one device: prototype masks \<open>(B, K, h, w)\<close>, mask coefficients
  \<open>(B, N, K)\<close>, ground-truth masks, matches \<open>(B, N)\<close> and matched boxes \<open>(B, N, 4)\<close>.
\<close>

type_synonym mask_device =
  "real list list list list \<times> real list list list \<times> real list list list list \<times> int list list \<times> box list list"

definition zip5 :: "'a list \<Rightarrow> 'b list \<Rightarrow> 'c list \<Rightarrow> 'd list \<Rightarrow> 'e list \<Rightarrow> ('a \<times> 'b \<times> 'c \<times> 'd \<times> 'e) list" where
  "zip5 vs ws xs ys zs = zip vs (zip ws (zip xs (zip ys zs)))"

definition yolact_device_mask :: "yolact_loss \<Rightarrow> sbce_loss \<Rightarrow> mask_device \<Rightarrow> real list" where
  "yolact_device_mask self SBCELoss mdev =
     (case mdev of (mp, me, mt, ma, btt) \<Rightarrow>
        map (\<lambda>x. yl_mask_lambd self * x)
          (mask_loss (yl_gt_weidth self) (yl_gt_height self) SBCELoss mp me mt ma btt))"

definition yolact_device_cls :: "yolact_loss \<Rightarrow> real \<Rightarrow> device \<Rightarrow> real list" where
  "yolact_device_cls self n dev =
     (case dev of (cp, bp, ct, bt) \<Rightarrow>
        map (\<lambda>x. yl_conf_lambd self * x / max 1 n)
          (sum_per_sample2 (mined_cls_loss (yl_min_hard_negatives self) (yl_negative_mining_ratio self) cp ct)))"

definition yolact_device_box :: "yolact_loss \<Rightarrow> real \<Rightarrow> device \<Rightarrow> real list" where
  "yolact_device_box self n dev =
     (case dev of (cp, bp, ct, bt) \<Rightarrow>
        map (\<lambda>x. yl_box_lambd self * x / max 1 n) (sum_per_sample3 (positive_box_loss (yl_rho self) bp ct bt)))"

text \<open>
  The forward pass. It returns
  \<^verbatim>\<open>sum_losses, cls_losses, box_losses, mask_losses\<close>. Only the first four
  arguments pass through \<^verbatim>\<open>_as_list\<close>; the others are lists over the devices.
  \<^verbatim>\<open>
  if num_pos_all < 1 and self._min_hard_negatives < 1:
      # no positive samples and no hard negatives, return dummy losses
      cls_losses = [nd.sum(cp * 0) for cp in cls_pred]
      box_losses = [nd.sum(bp * 0) for bp in box_pred]
      mask_losses = [nd.sum(me * 0) for me in mask_eoc]
      sum_losses = [nd.sum(cp * 0) + nd.sum(bp * 0) + nd.sum(me * 0) for cp, bp, me in zip(cls_pred, box_pred, mask_eoc)]
      return sum_losses, cls_losses, box_losses, mask_losses
  ...
  for cp, bp, ct, bt, mp, me, mt, ma, btt in zip(*[cls_pred, box_pred, cls_target, box_target, mask_pred, mask_eoc, mask_target, matches, bts]):
      # mask loss
      mask_losses.append(self.mask_lambd * self.mask_loss(mp, me, mt, ma, btt))
      ...
      cls_losses.append(self.conf_lambd * nd.sum(cls_loss, axis=0, exclude=True) / max(1., num_pos_all))
      ...
      box_losses.append(self.box_lambd * nd.sum(box_loss, axis=0, exclude=True) / max(1., num_pos_all))
      sum_losses.append(cls_losses[-1] + box_losses[-1] + mask_losses[-1])
  return sum_losses, cls_losses, box_losses, mask_losses
  \<close>
\<close>

definition YOLACTMultiBoxLoss_forward ::
  "yolact_loss \<Rightarrow> sbce_loss \<Rightarrow> real list list list arrays \<Rightarrow> real list list list arrays
     \<Rightarrow> real list list list list list \<Rightarrow> real list list list list
     \<Rightarrow> int list list arrays \<Rightarrow> real list list list arrays
     \<Rightarrow> real list list list list list \<Rightarrow> int list list list \<Rightarrow> box list list list
     \<Rightarrow> real list list \<times> real list list \<times> real list list \<times> real list list" where
  "YOLACTMultiBoxLoss_forward self SBCELoss cls_pred0 box_pred0 mask_pred mask_eoc cls_target0 box_target0
       mask_target matches bts =
     (let cls_pred = as_list cls_pred0; box_pred = as_list box_pred0;
          cls_target = as_list cls_target0; box_target = as_list box_target0;
          n = num_pos_all (zip4 cls_pred box_pred cls_target box_target)
      in if n < 1 \<and> yl_min_hard_negatives self < 1 then
           (map (\<lambda>(cp, bp, me). map2 (+) (map2 (+) (zero_sum3 cp) (zero_sum3 bp)) (zero_sum3 me))
              (zip cls_pred (zip box_pred mask_eoc)),
            map zero_sum3 cls_pred,
            map zero_sum3 box_pred,
            map zero_sum3 mask_eoc)
         else
           (let devices = zip (zip4 cls_pred box_pred cls_target box_target)
                              (zip5 mask_pred mask_eoc mask_target matches bts)
            in (map (\<lambda>(dev, mdev).
                      map2 (+) (map2 (+) (yolact_device_cls self n dev) (yolact_device_box self n dev))
                        (yolact_device_mask self SBCELoss mdev)) devices,
                map (\<lambda>(dev, mdev). yolact_device_cls self n dev) devices,
                map (\<lambda>(dev, mdev). yolact_device_box self n dev) devices,
                map (\<lambda>(dev, mdev). yolact_device_mask self SBCELoss mdev) devices)))"

subsection \<open>Mask-coefficient projection in the words of the specification\<close>

text \<open>
  The top \<open>pos_num\<close> indices of the \<^verbatim>\<open>argsort\<close> of the negated matches of one
  sample; the predicted instance masks
  \<open>sigmoid (take (mask_eoc[i], idx) . mask_pred[i])\<close>; and the weighted loss of the
  sample: the binary cross entropy of the cropped instance masks against the matched
  ground-truth masks, each instance weighted by
  \<open>gt_width * gt_height / area\<close> of its matched box.
\<close>

definition positive_anchors :: "int list \<Rightarrow> nat list" where
  "positive_anchors matches_i =
     take (length (filter (\<lambda>m. 0 \<le> m) matches_i)) (argsort (map uminus matches_i))"

definition instance_masks :: "real list list list \<Rightarrow> real list list \<Rightarrow> int list \<Rightarrow> real list list list" where
  "instance_masks mask_pred_i mask_eoc_i matches_i =
     map3 sigmoid (nd_dot (map (\<lambda>j. mask_eoc_i ! j) (positive_anchors matches_i)) mask_pred_i)"

definition box_area :: "box \<Rightarrow> real" where
  "box_area bx = (case bx of (bx1, by1, bx2, by2) \<Rightarrow> (by2 - by1) * (bx2 - bx1))"

definition projected_mask_loss ::
  "real \<Rightarrow> real \<Rightarrow> sbce_loss \<Rightarrow> real list list list \<Rightarrow> real list list \<Rightarrow> real list list list
     \<Rightarrow> int list \<Rightarrow> box list \<Rightarrow> real" where
  "projected_mask_loss gt_width gt_height SBCELoss mask_pred_i mask_eoc_i mask_target_i matches_i bt_target_i =
     (let idx = positive_anchors matches_i;
          boxes = map (\<lambda>j. bt_target_i ! j) idx;
          gts = map (\<lambda>j. mask_target_i ! nat (matches_i ! j)) idx;
          cropped = crop boxes (fst (mask_hw mask_pred_i)) (snd (mask_hw mask_pred_i))
                      (instance_masks mask_pred_i mask_eoc_i matches_i)
      in mean (map2 (\<lambda>l bx. l * (gt_width * gt_height / box_area bx)) (SBCELoss cropped gts) boxes))"

text \<open>The condition of the early return of \<^verbatim>\<open>YOLACTMultiBoxLoss.forward\<close>.\<close>

definition yolact_early_return :: "yolact_loss \<Rightarrow> device list \<Rightarrow> bool" where
  "yolact_early_return self devices \<longleftrightarrow> num_pos_all devices < 1 \<and> yl_min_hard_negatives self < 1"

text \<open>
  One sample with two anchors, of which the second is matched to ground truth 0; one
  prototype mask of one pixel; and a loss block that returns 1 for every instance.
\<close>

definition unit_sbce :: sbce_loss where
  "unit_sbce p t = map (\<lambda>_. 1) p"

definition example_matches :: "int list list" where
  "example_matches = [[-1, 0]]"

definition example_mask_eoc :: "real list list list" where
  "example_mask_eoc = [[[1], [2]]]"

definition example_mask_pred :: "real list list list list" where
  "example_mask_pred = [[[[0]]]]"

definition example_mask_target :: "real list list list list" where
  "example_mask_target = [[[[1]]]]"

definition example_bt_target :: "box list list" where
  "example_bt_target = [[(0, 0, 4, 4), (0, 0, 2, 2)]]"

section \<open>Verification of the training loop\<close>

subsection \<open>The learning-rate schedule\<close>

lemma consumed_le_length: "consumed p xs e \<le> length xs"
  by (induction xs arbitrary: p) auto

lemma consumed_at_bound: "consumed e xs e = 0"
  by (cases xs) auto

lemma consumed_step:
  "p < e \<Longrightarrow>
   consumed p xs e =
     consumed p xs (e - 1) + (if lr_decay_epoch_list xs ! consumed p xs (e - 1) = At e then 1 else 0)"
proof (induction xs arbitrary: p)
  case Nil
  then show ?case by (simp add: lr_decay_epoch_list_def)
next
  case (Cons x xs)
  show ?case
  proof (cases "p < x \<and> x \<le> e")
    case False
    with Cons.prems show ?thesis by (auto simp: lr_decay_epoch_list_def)
  next
    case True
    show ?thesis
    proof (cases "x = e")
      case True
      with Cons.prems show ?thesis by (simp add: lr_decay_epoch_list_def consumed_at_bound)
    next
      case False
      with True have "x < e" by simp
      from Cons.IH [OF this] True \<open>x < e\<close> show ?thesis
        by (simp add: lr_decay_epoch_list_def)
    qed
  qed
qed

lemma consumed_sorted:
  "sorted_wrt (<) xs \<Longrightarrow> \<forall>x \<in> set xs. p < x \<Longrightarrow> consumed p xs e = length (filter (\<lambda>x. x \<le> e) xs)"
proof (induction xs arbitrary: p)
  case Nil
  then show ?case by simp
next
  case (Cons x xs)
  show ?case
  proof (cases "x \<le> e")
    case True
    with Cons show ?thesis by auto
  next
    case False
    with Cons.prems have "\<forall>y \<in> set xs. \<not> y \<le> e" by auto
    then have "filter (\<lambda>x. x \<le> e) xs = []" by (simp add: filter_empty_conv)
    with False show ?thesis by simp
  qed
qed

lemma batch_loop_fields:
  "learning_rate (batch_loop e n s) = learning_rate s \<and>
   lr_decay_count (batch_loop e n s) = lr_decay_count s \<and>
   best_val_score (batch_loop e n s) = best_val_score s \<and>
   iteration (batch_loop e n s) = iteration s + n \<and>
   trace (batch_loop e n s) = trace s @ replicate n (TrainerStep e (learning_rate s))"
  by (induction n arbitrary: s) (auto simp: replicate_append_same)

lemma train_loop_append:
  "train_loop opt nb va (xs @ ys) s =
     (case train_loop opt nb va xs s of Inl err \<Rightarrow> Inl err | Inr s' \<Rightarrow> train_loop opt nb va ys s')"
  by (induction xs arbitrary: s) (auto split: sum.splits)

lemma decays_by_step:
  "0 \<le> e \<Longrightarrow> decays_by xs e = decays_by xs (e - 1) + (if decays_at xs e then 1 else 0)"
  unfolding decays_by_def decays_at_def by (rule consumed_step) simp

lemma decays_by_le: "decays_by xs e \<le> length xs"
  by (simp add: decays_by_def consumed_le_length)

lemma filter_lr_best_check:
  "filter is_lr_event (trace (best_check e a s)) = filter is_lr_event (trace s)"
  by (simp add: best_check_def is_lr_event_def)

lemma filter_lr_period_check:
  "filter is_lr_event (trace (period_check opt e s)) = filter is_lr_event (trace s)"
  by (simp add: period_check_def is_lr_event_def)

lemma best_check_fields:
  "learning_rate (best_check e a s) = learning_rate s \<and>
   lr_decay_count (best_check e a s) = lr_decay_count s \<and>
   iteration (best_check e a s) = iteration s"
  by (simp add: best_check_def)

lemma period_check_fields:
  "learning_rate (period_check opt e s) = learning_rate s \<and>
   lr_decay_count (period_check opt e s) = lr_decay_count s \<and>
   iteration (period_check opt e s) = iteration s \<and>
   best_val_score (period_check opt e s) = best_val_score s"
  by (simp add: period_check_def)

lemma lr_inv_init: "lr_inv opt nb 0 (init_state opt)"
  by (cases "opt_lr_decay_epoch opt") (simp_all add: lr_inv_def init_state_def decays_by_def)

lemma epoch_body_lr_inv:
  assumes inv: "lr_inv opt nb k s" and nb: "0 < nb"
  shows "\<exists>s'. epoch_body opt nb va (int k) s = Inr s' \<and> lr_inv opt nb (Suc k) s'"
proof -
  let ?L = "opt_lr_decay_epoch opt"
  let ?e = "int k"
  from inv have cnt: "lr_decay_count s = decays_by ?L (?e - 1)"
    and lr: "learning_rate s = opt_lr opt * opt_lr_decay opt ^ lr_decay_count s"
    and it: "iteration s = k * nb"
    and tr: "filter is_lr_event (trace s) = concat (map (lr_events opt nb) (map int [0..<k]))"
    by (simp_all add: lr_inv_def)
  have in_range: "lr_decay_count s < length (lr_decay_epoch_list ?L)"
    using decays_by_le [of ?L "?e - 1"] by (simp add: cnt lr_decay_epoch_list_def)
  have step: "decays_by ?L ?e = decays_by ?L (?e - 1) + (if decays_at ?L ?e then 1 else 0)"
    by (rule decays_by_step) simp
  show ?thesis
  proof (cases "decays_at ?L ?e")
    case True
    then have hit: "lr_decay_epoch_list ?L ! lr_decay_count s = At ?e"
      by (simp add: decays_at_def cnt)
    let ?s1 = "s\<lparr>learning_rate := learning_rate s * opt_lr_decay opt,
                  lr_decay_count := lr_decay_count s + 1,
                  trace := trace s @ [SetLearningRate ?e (learning_rate s * opt_lr_decay opt)]\<rparr>"
    have dc: "decay_check opt ?e s = Inr ?s1"
      using in_range hit by (simp add: decay_check_def Let_def)
    let ?s' = "period_check opt ?e (best_check ?e (va ?e) (batch_loop ?e nb ?s1))"
    have eb: "epoch_body opt nb va ?e s = Inr ?s'"
      using nb by (simp add: epoch_body_def dc Let_def)
    have lr1: "learning_rate s * opt_lr_decay opt = lr_in_epoch opt ?e"
      using True step by (simp add: lr_in_epoch_def lr cnt)
    have ev: "lr_events opt nb ?e =
        SetLearningRate ?e (learning_rate s * opt_lr_decay opt)
        # replicate nb (TrainerStep ?e (learning_rate s * opt_lr_decay opt))"
      using True by (simp add: lr_events_def lr1)
    have "lr_inv opt nb (Suc k) ?s'"
      unfolding lr_inv_def
      using True step
      by (simp add: period_check_fields best_check_fields batch_loop_fields
          filter_lr_period_check filter_lr_best_check cnt it tr ev is_lr_event_def lr)
    with eb show ?thesis by blast
  next
    case False
    then have miss: "lr_decay_epoch_list ?L ! lr_decay_count s \<noteq> At ?e"
      by (simp add: decays_at_def cnt)
    have dc: "decay_check opt ?e s = Inr s"
      using in_range miss by (simp add: decay_check_def Let_def)
    let ?s' = "period_check opt ?e (best_check ?e (va ?e) (batch_loop ?e nb s))"
    have eb: "epoch_body opt nb va ?e s = Inr ?s'"
      using nb by (simp add: epoch_body_def dc Let_def)
    have lr1: "learning_rate s = lr_in_epoch opt ?e"
      using False step by (simp add: lr_in_epoch_def lr cnt)
    have ev: "lr_events opt nb ?e = replicate nb (TrainerStep ?e (learning_rate s))"
      using False by (simp add: lr_events_def lr1)
    have "lr_inv opt nb (Suc k) ?s'"
      unfolding lr_inv_def
      using False step
      by (simp add: period_check_fields best_check_fields batch_loop_fields
          filter_lr_period_check filter_lr_best_check cnt it tr ev is_lr_event_def lr)
    with eb show ?thesis by blast
  qed
qed

lemma train_loop_lr_inv:
  "0 < nb \<Longrightarrow> \<exists>s. train_loop opt nb va (map int [0..<k]) (init_state opt) = Inr s \<and> lr_inv opt nb k s"
proof (induction k)
  case 0
  then show ?case by (simp add: lr_inv_init)
next
  case (Suc k)
  then obtain s where s: "train_loop opt nb va (map int [0..<k]) (init_state opt) = Inr s"
    and inv: "lr_inv opt nb k s" by blast
  from epoch_body_lr_inv [OF inv Suc.prems, of va]
  obtain s' where "epoch_body opt nb va (int k) s = Inr s'" "lr_inv opt nb (Suc k) s'" by blast
  with s show ?case by (simp add: train_loop_append)
qed

lemma range_py_Suc: "range_py (1 + int k) = range_py (int k) @ [int k]"
proof -
  have "nat (1 + int k) = Suc k" by simp
  then show ?thesis by (simp add: range_py_def)
qed

lemma range_py_int: "range_py (int k) = map int [0..<k]"
  by (simp add: range_py_def)

lemma max_seen_Suc: "max_seen va (1 + int k) = max (max_seen va (int k)) (va (int k))"
proof -
  let ?S = "insert 0 (va ` set (range_py (int k)))"
  have "insert 0 (va ` set (range_py (1 + int k))) = insert (va (int k)) ?S"
    by (auto simp: range_py_Suc)
  moreover have "finite ?S" "?S \<noteq> {}" by simp_all
  ultimately show ?thesis
    unfolding max_seen_def by (simp add: max.commute)
qed

lemma new_best_iff: "new_best va e \<longleftrightarrow> max_seen va e < va e"
proof -
  let ?S = "insert 0 (va ` set (range_py e))"
  have "finite ?S" "?S \<noteq> {}" by simp_all
  then have "Max ?S < va e \<longleftrightarrow> (\<forall>a \<in> ?S. a < va e)" by (rule Max_less_iff)
  then show ?thesis by (auto simp: new_best_def exceeds_previous_def max_seen_def list_all_iff)
qed

lemma decay_check_best:
  "decay_check opt e s = Inr s1 \<Longrightarrow>
     best_val_score s1 = best_val_score s \<and>
     filter is_best_event (trace s1) = filter is_best_event (trace s)"
  by (auto simp: decay_check_def Let_def is_best_event_def split: if_splits)

lemma batch_loop_best:
  "filter is_best_event (trace (batch_loop e n s)) = filter is_best_event (trace s)"
  by (simp add: batch_loop_fields is_best_event_def)

lemma epoch_body_best:
  assumes "epoch_body opt nb va e s = Inr s'"
  shows "best_val_score s' = max (best_val_score s) (va e) \<and>
         filter is_best_event (trace s') =
           filter is_best_event (trace s) @ (if best_val_score s < va e then [SaveBest e (va e)] else [])"
proof -
  from assms obtain s1 where dc: "decay_check opt e s = Inr s1"
    and s': "s' = period_check opt e (best_check e (va e) (batch_loop e nb s1))"
    by (auto simp: epoch_body_def Let_def split: sum.splits if_splits)
  note b = decay_check_best [OF dc]
  have "filter is_best_event (trace (period_check opt e t)) = filter is_best_event (trace t)" for t
    by (simp add: period_check_def is_best_event_def)
  then show ?thesis
    using b by (simp add: s' period_check_fields best_check_def batch_loop_fields batch_loop_best
        is_best_event_def)
qed

lemma train_loop_best_inv:
  "train_loop opt nb va (range_py (int k)) (init_state opt) = Inr s \<Longrightarrow> best_inv va k s"
proof (induction k arbitrary: s)
  case 0
  then have "s = init_state opt" by (simp add: range_py_def)
  then show ?case by (simp add: best_inv_def range_py_def init_state_def max_seen_def)
next
  case (Suc k)
  from Suc.prems obtain s0 where s0: "train_loop opt nb va (range_py (int k)) (init_state opt) = Inr s0"
    and eb: "epoch_body opt nb va (int k) s0 = Inr s"
    by (auto simp: range_py_Suc train_loop_append split: sum.splits)
  from Suc.IH [OF s0] have inv: "best_inv va k s0" .
  note st = epoch_body_best [OF eb]
  from inv st show ?case
    by (simp add: best_inv_def max_seen_Suc range_py_Suc new_best_iff)
qed

lemma decays_by_negative: "e < 0 \<Longrightarrow> decays_by xs e = 0"
  by (cases xs) (simp_all add: decays_by_def)

lemma decays_by_never_hit:
  assumes k: "k < length xs"
    and miss: "\<forall>e'. 0 \<le> e' \<and> e' \<le> e \<longrightarrow> \<not> (decays_by xs (e' - 1) = k \<and> xs ! k = e')"
  shows "decays_by xs e \<le> k"
proof -
  have "int n - 1 \<le> e \<Longrightarrow> decays_by xs (int n - 1) \<le> k" for n
  proof (induction n)
    case 0
    then show ?case by (simp add: decays_by_negative)
  next
    case (Suc n)
    then have IH: "decays_by xs (int n - 1) \<le> k" by simp
    have step: "decays_by xs (int n) = decays_by xs (int n - 1) + (if decays_at xs (int n) then 1 else 0)"
      by (rule decays_by_step) simp
    show ?case
    proof (cases "decays_by xs (int n - 1) = k")
      case True
      from Suc.prems miss have "\<not> (decays_by xs (int n - 1) = k \<and> xs ! k = int n)" by simp
      with True have "xs ! k \<noteq> int n" by simp
      with True k have "\<not> decays_at xs (int n)"
        by (simp add: decays_at_def lr_decay_epoch_list_def nth_append)
      with step True show ?thesis by simp
    next
      case False
      with IH step show ?thesis by simp
    qed
  qed
  from this [of "nat (e + 1)"] show ?thesis
    by (cases "e < 0") (simp_all add: decays_by_negative)
qed

lemma final_save_fields:
  "iteration (final_save opt n s) = iteration s \<and>
   learning_rate (final_save opt n s) = learning_rate s \<and>
   best_val_score (final_save opt n s) = best_val_score s \<and>
   filter is_lr_event (trace (final_save opt n s)) = filter is_lr_event (trace s) \<and>
   filter is_best_event (trace (final_save opt n s)) = filter is_best_event (trace s)"
  by (simp add: final_save_def is_lr_event_def is_best_event_def)

text \<open>
  Claim C7, as amended. Provided the training loader yields at least one mini-batch
  (\<open>0 < num_batch\<close>), \<^verbatim>\<open>train(epochs, ctx)\<close> returns normally after running the
  epochs \<open>0, ..., epochs - 1\<close>; it makes \<open>num_batch\<close> calls of
  \<^verbatim>\<open>trainer.step\<close> in each of them (\<open>epochs * num_batch\<close> in all); the learning
  rate is set only before the first step of an epoch, and exactly in the epochs that
  equal the next unconsumed entry of the list; and every step of epoch \<open>e\<close> runs at
  \<open>opt.lr * lr_decay ^ decays_by parsed e\<close>. For a strictly ascending list of
  non-negative epochs, \<open>decays_by parsed e\<close> is the number of entries \<open>\<le> e\<close>. An
  entry at position \<open>k\<close> that no epoch hits while it is the next unconsumed one keeps
  the count at \<open>k\<close> or below: no later entry causes a decay.
\<close>

theorem train_learning_rate_schedule:
  assumes "0 < num_batch"
  shows "(\<exists>s. train opt num_batch val_acc epochs = Inr s \<and>
              iteration s = nat epochs * num_batch \<and>
              filter is_lr_event (trace s) = concat (map (lr_events opt num_batch) (range_py epochs))) \<and>
         (sorted_wrt (<) (opt_lr_decay_epoch opt) \<and> (\<forall>x \<in> set (opt_lr_decay_epoch opt). 0 \<le> x) \<longrightarrow>
            decays_by (opt_lr_decay_epoch opt) e = length (filter (\<lambda>x. x \<le> e) (opt_lr_decay_epoch opt))) \<and>
         (k < length (opt_lr_decay_epoch opt) \<and>
          (\<forall>e'. 0 \<le> e' \<and> e' \<le> e \<longrightarrow>
             \<not> (decays_by (opt_lr_decay_epoch opt) (e' - 1) = k \<and> opt_lr_decay_epoch opt ! k = e')) \<longrightarrow>
            decays_by (opt_lr_decay_epoch opt) e \<le> k)"
proof (intro conjI impI)
  from train_loop_lr_inv [OF assms, of opt val_acc "nat epochs"]
  obtain s where s: "train_loop opt num_batch val_acc (range_py epochs) (init_state opt) = Inr s"
    and inv: "lr_inv opt num_batch (nat epochs) s"
    by (auto simp: range_py_def)
  have "train opt num_batch val_acc epochs = Inr (final_save opt epochs s)"
    by (simp add: train_def s)
  moreover from inv have "iteration (final_save opt epochs s) = nat epochs * num_batch"
    by (simp add: lr_inv_def final_save_fields)
  moreover from inv have "filter is_lr_event (trace (final_save opt epochs s)) =
      concat (map (lr_events opt num_batch) (range_py epochs))"
    by (simp add: lr_inv_def final_save_fields range_py_def)
  ultimately show "\<exists>s. train opt num_batch val_acc epochs = Inr s \<and>
      iteration s = nat epochs * num_batch \<and>
      filter is_lr_event (trace s) = concat (map (lr_events opt num_batch) (range_py epochs))"
    by blast
next
  assume "sorted_wrt (<) (opt_lr_decay_epoch opt) \<and> (\<forall>x \<in> set (opt_lr_decay_epoch opt). 0 \<le> x)"
  then show "decays_by (opt_lr_decay_epoch opt) e = length (filter (\<lambda>x. x \<le> e) (opt_lr_decay_epoch opt))"
    unfolding decays_by_def by (intro consumed_sorted) auto
next
  assume "k < length (opt_lr_decay_epoch opt) \<and>
          (\<forall>e'. 0 \<le> e' \<and> e' \<le> e \<longrightarrow>
             \<not> (decays_by (opt_lr_decay_epoch opt) (e' - 1) = k \<and> opt_lr_decay_epoch opt ! k = e'))"
  then show "decays_by (opt_lr_decay_epoch opt) e \<le> k"
    by (intro decays_by_never_hit) auto
qed

lemma ex_decays [simp]:
  "decays_by [1, 3] (-1) = 0" "decays_by [1, 3] 0 = 0" "decays_by [1, 3] 1 = 1" "decays_by [1, 3] 2 = 1"
  by (simp_all add: decays_by_def)

text \<open>
  The theorem at a run of three epochs with two mini-batches each and decay epochs 1 and
  3: six steps, one decay at the start of epoch 1, and the entry 3 is never reached.
\<close>

theorem train_learning_rate_schedule_witness:
  "(0::nat) < 2 \<and>
   (\<exists>s. train example_options 2 example_acc 3 = Inr s \<and> iteration s = 6 \<and>
        filter is_lr_event (trace s) =
          [TrainerStep 0 (1/10), TrainerStep 0 (1/10),
           SetLearningRate 1 (1/100), TrainerStep 1 (1/100), TrainerStep 1 (1/100),
           TrainerStep 2 (1/100), TrainerStep 2 (1/100)]) \<and>
   decays_by (opt_lr_decay_epoch example_options) 2 = 1 \<and>
   decays_by (opt_lr_decay_epoch example_options) 2 \<le> 1"
proof -
  have L: "opt_lr_decay_epoch example_options = [1, 3]" by (simp add: example_options_def)
  have r: "range_py 3 = [0, 1, 2]" by (simp add: range_py_def upt_rec)
  have ev: "concat (map (lr_events example_options 2) (range_py 3)) =
      [TrainerStep 0 (1/10), TrainerStep 0 (1/10),
       SetLearningRate 1 (1/100), TrainerStep 1 (1/100), TrainerStep 1 (1/100),
       TrainerStep 2 (1/100), TrainerStep 2 (1/100)]"
    by (simp add: r lr_events_def decays_at_def lr_in_epoch_def L lr_decay_epoch_list_def
        example_options_def numeral_2_eq_2 power2_eq_square)
  have miss: "\<forall>e'. 0 \<le> e' \<and> e' \<le> 2 \<longrightarrow>
      \<not> (decays_by (opt_lr_decay_epoch example_options) (e' - 1) = 1 \<and>
         opt_lr_decay_epoch example_options ! 1 = e')"
    by (simp add: L)
  from train_learning_rate_schedule [of 2 example_options example_acc 3 2 1] miss
  show ?thesis by (simp add: L ev)
qed

text \<open>
  Claim C7 as stated fails when the training loader yields no mini-batch (a data set
  smaller than the batch size, with \<^verbatim>\<open>last_batch='discard'\<close>): the first epoch
  raises \<^verbatim>\<open>ZeroDivisionError\<close> at \<^verbatim>\<open>train_loss /= batch_size * num_batch\<close>,
  so \<^verbatim>\<open>train(2, ctx)\<close> does not run two epochs.
\<close>

theorem train_empty_loader_counterexample:
  "train default_options 0 zero_acc 2 = Inl ZeroDivisionError"
  by (simp add: train_def range_py_def upt_rec epoch_body_def decay_check_def Let_def
      default_options_def init_state_def lr_decay_epoch_list_def)

lemma new_best_exceeds: "new_best va e \<longleftrightarrow> 0 < va e \<and> exceeds_previous va e"
  by (simp add: new_best_def)

lemma range_py_nat: "range_py (int (nat n)) = range_py n"
  by (simp only: range_py_def nat_int)

lemma max_seen_nat: "max_seen va (int (nat n)) = max_seen va n"
  by (simp only: max_seen_def range_py_nat)

lemma train_loop_prefix:
  assumes "k \<le> n"
    and "train_loop opt nb va (range_py (int n)) (init_state opt) = Inr t"
  shows "\<exists>s. train_loop opt nb va (range_py (int k)) (init_state opt) = Inr s \<and>
             train_loop opt nb va (map int [k..<n]) s = Inr t"
proof -
  from assms(1) have "[0..<n] = [0..<k] @ [k..<n]"
    by (metis le_add_diff_inverse upt_add_eq_append zero_le)
  then have "range_py (int n) = range_py (int k) @ map int [k..<n]"
    by (simp add: range_py_def)
  with assms(2) show ?thesis
    by (auto simp: train_loop_append split: sum.splits)
qed

subsection \<open>The best checkpoint\<close>

text \<open>
  Claim C10, as amended. Let \<open>s\<close> be the state after the epochs before \<open>epochs\<close>
  have completed (any point between two epochs of a longer run is such a state, by
  \<open>train_loop_prefix\<close>). Then \<^verbatim>\<open>best_val_score\<close> is the maximum of 0 and the
  validation accuracies seen so far; the \<^verbatim>\<open>-best.params\<close> checkpoints saved so
  far are, in order, those of the epochs whose validation accuracy is positive and
  strictly exceeds that of every earlier epoch; one more epoch does not lower
  \<^verbatim>\<open>best_val_score\<close>; and the final save of \<^verbatim>\<open>train\<close> changes neither.
\<close>

theorem best_checkpoint_invariant:
  assumes "train_loop opt num_batch val_acc (range_py epochs) (init_state opt) = Inr s"
  shows "best_val_score s = max_seen val_acc epochs \<and>
         filter is_best_event (trace s) =
           map (\<lambda>e. SaveBest e (val_acc e))
             (filter (\<lambda>e. 0 < val_acc e \<and> exceeds_previous val_acc e) (range_py epochs)) \<and>
         (\<forall>s'. epoch_body opt num_batch val_acc (int (nat epochs)) s = Inr s' \<longrightarrow>
            best_val_score s \<le> best_val_score s') \<and>
         train opt num_batch val_acc epochs = Inr (final_save opt epochs s) \<and>
         best_val_score (final_save opt epochs s) = best_val_score s \<and>
         filter is_best_event (trace (final_save opt epochs s)) = filter is_best_event (trace s)"
proof -
  from assms have "train_loop opt num_batch val_acc (range_py (int (nat epochs))) (init_state opt) = Inr s"
    by (simp only: range_py_nat)
  then have "best_inv val_acc (nat epochs) s" by (rule train_loop_best_inv)
  then have a: "best_val_score s = max_seen val_acc epochs"
    and b: "filter is_best_event (trace s) =
           map (\<lambda>e. SaveBest e (val_acc e))
             (filter (\<lambda>e. 0 < val_acc e \<and> exceeds_previous val_acc e) (range_py epochs))"
    by (simp_all only: best_inv_def max_seen_nat range_py_nat new_best_exceeds [abs_def])
  have c: "\<forall>s'. epoch_body opt num_batch val_acc (int (nat epochs)) s = Inr s' \<longrightarrow>
            best_val_score s \<le> best_val_score s'"
    by (auto dest: epoch_body_best)
  have d: "train opt num_batch val_acc epochs = Inr (final_save opt epochs s)"
    by (simp add: train_def assms)
  from a b c d show ?thesis by (simp add: final_save_fields)
qed

text \<open>
  The theorem at a run of three epochs with validation accuracies 1/2, 1/4, 3/4: best
  checkpoints in epochs 0 and 2.
\<close>

theorem best_checkpoint_invariant_witness:
  "train_loop example_options 1 example_acc (range_py 3) (init_state example_options) =
     Inr \<lparr>learning_rate = 1/100, lr_decay_count = 1, iteration = 3, best_val_score = 3/4,
          trace = [TrainerStep 0 (1/10), SaveBest 0 (1/2), SetLearningRate 1 (1/100),
                   TrainerStep 1 (1/100), TrainerStep 2 (1/100), SaveBest 2 (3/4)]\<rparr> \<and>
   max_seen example_acc 3 = 3/4 \<and>
   map (\<lambda>e. SaveBest e (example_acc e))
     (filter (\<lambda>e. 0 < example_acc e \<and> exceeds_previous example_acc e) (range_py 3)) =
     [SaveBest 0 (1/2), SaveBest 2 (3/4)]"
proof -
  have r: "range_py 3 = [0, 1, 2]" by (simp add: range_py_def upt_rec)
  have run: "train_loop example_options 1 example_acc (range_py 3) (init_state example_options) =
     Inr \<lparr>learning_rate = 1/100, lr_decay_count = 1, iteration = 3, best_val_score = 3/4,
          trace = [TrainerStep 0 (1/10), SaveBest 0 (1/2), SetLearningRate 1 (1/100),
                   TrainerStep 1 (1/100), TrainerStep 2 (1/100), SaveBest 2 (3/4)]\<rparr>"
    by (simp add: r epoch_body_def decay_check_def Let_def best_check_def period_check_def
        save_period_def save_dir_def example_options_def init_state_def lr_decay_epoch_list_def
        example_acc_def)
  note inv = best_checkpoint_invariant [OF run]
  from inv [THEN conjunct1] have a: "max_seen example_acc 3 = 3/4" by simp
  from inv [THEN conjunct2, THEN conjunct1]
  have b: "map (\<lambda>e. SaveBest e (example_acc e))
     (filter (\<lambda>e. 0 < example_acc e \<and> exceeds_previous example_acc e) (range_py 3)) =
     [SaveBest 0 (1/2), SaveBest 2 (3/4)]"
    by (simp add: is_best_event_def)
  from run a b show ?thesis by (simp only: simp_thms)
qed

text \<open>
  Claim C10 as stated fails in the first epoch when its validation accuracy is 0: the
  accuracy strictly exceeds that of every previous epoch (there is none), but
  \<^verbatim>\<open>val_acc > best_val_score\<close> compares with the initial score 0 and no
  \<^verbatim>\<open>-best.params\<close> file is saved; the run's only checkpoint is the final one.
\<close>

theorem best_checkpoint_first_epoch_counterexample:
  "exceeds_previous zero_acc 0 \<and>
   train default_options 1 zero_acc 1 =
     Inr \<lparr>learning_rate = 1/10, lr_decay_count = 0, iteration = 1, best_val_score = 0,
          trace = [TrainerStep 0 (1/10), SaveParams 0]\<rparr>"
  by (simp add: exceeds_previous_def train_def range_py_def upt_rec epoch_body_def decay_check_def
      Let_def best_check_def period_check_def final_save_def save_period_def save_dir_def
      default_options_def init_state_def lr_decay_epoch_list_def zero_acc_def)

section \<open>Verification of the constructors\<close>

text \<open>
  Claim C9. Each of the three constructors raises exactly when \<^verbatim>\<open>sparse_label\<close> is
  true and \<^verbatim>\<open>num_class\<close> is not an \<^verbatim>\<open>int\<close> or is less than 1; the exception is
  \<^verbatim>\<open>ValueError\<close>; and in every other case the object is returned with each
  parameter stored as it was passed.
\<close>

theorem constructors_check_num_class:
  "((\<exists>e. FocalLoss_init axis alpha gamma sparse_label from_logits batch_axis weight num_class eps
            size_average = Inl e) \<longleftrightarrow> num_class_rejected sparse_label num_class) \<and>
   (\<forall>e. FocalLoss_init axis alpha gamma sparse_label from_logits batch_axis weight num_class eps
            size_average = Inl e \<longrightarrow> e = ValueError) \<and>
   (\<not> num_class_rejected sparse_label num_class \<longrightarrow>
      FocalLoss_init axis alpha gamma sparse_label from_logits batch_axis weight num_class eps
          size_average =
        Inr \<lparr>fl_weight = weight, fl_batch_axis = batch_axis, fl_axis = axis, fl_alpha = alpha,
             fl_gamma = gamma, fl_sparse_label = sparse_label, fl_num_class = num_class,
             fl_from_logits = from_logits, fl_eps = eps, fl_size_average = size_average\<rparr>) \<and>
   ((\<exists>e. SigmoidFocalLoss_init alpha gamma sparse_label from_logits batch_axis weight num_class eps
            = Inl e) \<longleftrightarrow> num_class_rejected sparse_label num_class) \<and>
   (\<forall>e. SigmoidFocalLoss_init alpha gamma sparse_label from_logits batch_axis weight num_class eps
            = Inl e \<longrightarrow> e = ValueError) \<and>
   (\<not> num_class_rejected sparse_label num_class \<longrightarrow>
      SigmoidFocalLoss_init alpha gamma sparse_label from_logits batch_axis weight num_class eps =
        Inr \<lparr>sfl_weight = weight, sfl_batch_axis = batch_axis, sfl_alpha = alpha,
             sfl_gamma = gamma, sfl_sparse_label = sparse_label, sfl_num_class = num_class,
             sfl_from_logits = from_logits, sfl_eps = eps\<rparr>) \<and>
   ((\<exists>e. MaskFCOSLoss_init return_iou alpha gamma cls_lambd box_lambd ctr_lambd mask_lambd
            (width, height) sparse_label from_logits num_class eps = Inl e)
      \<longleftrightarrow> num_class_rejected sparse_label num_class) \<and>
   (\<forall>e. MaskFCOSLoss_init return_iou alpha gamma cls_lambd box_lambd ctr_lambd mask_lambd
            (width, height) sparse_label from_logits num_class eps = Inl e \<longrightarrow> e = ValueError) \<and>
   (\<not> num_class_rejected sparse_label num_class \<longrightarrow>
      MaskFCOSLoss_init return_iou alpha gamma cls_lambd box_lambd ctr_lambd mask_lambd
          (width, height) sparse_label from_logits num_class eps =
        Inr \<lparr>mf_return_iou = return_iou, mf_eps = eps, mf_alpha = alpha, mf_gamma = gamma,
             mf_cls_lambd = cls_lambd, mf_box_lambd = box_lambd, mf_ctr_lambd = ctr_lambd,
             mf_mask_lambd = mask_lambd, mf_sparse_label = sparse_label,
             mf_num_class = num_class, mf_from_logits = from_logits,
             mf_gt_weidth = width, mf_gt_height = height, mf_max = 0\<rparr>)"
  by (simp add: FocalLoss_init_def SigmoidFocalLoss_init_def MaskFCOSLoss_init_def
      num_class_rejected_def)

text \<open>
  The theorem at \<^verbatim>\<open>FocalLoss(num_class=3)\<close>, which is built, and at the default
  \<^verbatim>\<open>num_class=None\<close>, the boolean \<^verbatim>\<open>False\<close> and a float, which are rejected;
  \<^verbatim>\<open>True\<close> passes as the integer 1, and nothing is checked without
  \<^verbatim>\<open>sparse_label\<close>.
\<close>

theorem constructors_check_num_class_witness:
  "FocalLoss_init (-1) (1/4) 2 True False 0 None (PyInt 3) 0 True =
     Inr \<lparr>fl_weight = None, fl_batch_axis = 0, fl_axis = -1, fl_alpha = 1/4, fl_gamma = 2,
          fl_sparse_label = True, fl_num_class = PyInt 3, fl_from_logits = False, fl_eps = 0,
          fl_size_average = True\<rparr> \<and>
   num_class_rejected True PyNone \<and>
   (\<exists>e. FocalLoss_init (-1) (1/4) 2 True False 0 None PyNone 0 True = Inl e) \<and>
   num_class_rejected True (PyBool False) \<and>
   (\<exists>e. SigmoidFocalLoss_init (1/4) 2 True False 0 None (PyBool False) 0 = Inl e) \<and>
   num_class_rejected True (PyFloat 3) \<and>
   (\<exists>e. MaskFCOSLoss_init True (1/4) 2 1 1 1 1 (740, 740) True False (PyFloat 3) 0 = Inl e) \<and>
   \<not> num_class_rejected True (PyBool True) \<and>
   \<not> num_class_rejected False PyNone"
proof -
  have r: "\<not> num_class_rejected True (PyInt 3)" "num_class_rejected True PyNone"
    "num_class_rejected True (PyBool False)" "num_class_rejected True (PyFloat 3)"
    "\<not> num_class_rejected True (PyBool True)" "\<not> num_class_rejected False PyNone"
    by (simp_all add: num_class_rejected_def isinstance_int_def int_value_def)
  note a = constructors_check_num_class [of "-1" "1/4" 2 True False 0 None "PyInt 3" 0 True]
  note b = constructors_check_num_class [of "-1" "1/4" 2 True False 0 None PyNone 0 True]
  note c = constructors_check_num_class [of _ "1/4" 2 True False 0 None "PyBool False" 0]
  note d = constructors_check_num_class [of _ "1/4" 2 True False _ _ "PyFloat 3" 0 _ True 1 1 1 1 740 740]
  from r a have 1: "FocalLoss_init (-1) (1/4) 2 True False 0 None (PyInt 3) 0 True =
     Inr \<lparr>fl_weight = None, fl_batch_axis = 0, fl_axis = -1, fl_alpha = 1/4, fl_gamma = 2,
          fl_sparse_label = True, fl_num_class = PyInt 3, fl_from_logits = False, fl_eps = 0,
          fl_size_average = True\<rparr>" by blast
  from r b have 2: "\<exists>e. FocalLoss_init (-1) (1/4) 2 True False 0 None PyNone 0 True = Inl e" by blast
  from r c have 3: "\<exists>e. SigmoidFocalLoss_init (1/4) 2 True False 0 None (PyBool False) 0 = Inl e" by blast
  from r d have 4: "\<exists>e. MaskFCOSLoss_init True (1/4) 2 1 1 1 1 (740, 740) True False (PyFloat 3) 0 = Inl e"
    by blast
  from r 1 2 3 4 show ?thesis by blast
qed

section \<open>Lemmas on tensors\<close>

lemma has_shape3_nth:
  "has_shape3 b h w t \<Longrightarrow> k < b \<Longrightarrow> length (t ! k) = h"
  "has_shape3 b h w t \<Longrightarrow> k < b \<Longrightarrow> i < h \<Longrightarrow> length (t ! k ! i) = w"
  by (auto simp: has_shape3_def list_all_length)

lemma has_shape3_iff:
  "has_shape3 B N C t \<longleftrightarrow>
     length t = B \<and> (\<forall>b<B. length (t ! b) = N \<and> (\<forall>n<N. length (t ! b ! n) = C))"
  by (auto simp: has_shape3_def list_all_length)

lemma has_shape2_iff:
  "has_shape2 B N t \<longleftrightarrow> length t = B \<and> (\<forall>b<B. length (t ! b) = N)"
  by (auto simp: has_shape2_def list_all_length)

lemma tabulate3_shape: "has_shape3 B N C (tabulate3 B N C f)"
  by (simp add: has_shape3_iff tabulate3_def)

lemma tabulate3_nth: "b < B \<Longrightarrow> n < N \<Longrightarrow> c < C \<Longrightarrow> tabulate3 B N C f ! b ! n ! c = f b n c"
  by (simp add: tabulate3_def)

lemma tabulate3_eqI:
  assumes sh: "has_shape3 B N C t"
    and v: "\<And>b n c. b < B \<Longrightarrow> n < N \<Longrightarrow> c < C \<Longrightarrow> t ! b ! n ! c = f b n c"
  shows "t = tabulate3 B N C f"
proof (rule nth_equalityI)
  from sh show "length t = length (tabulate3 B N C f)"
    by (simp add: has_shape3_iff tabulate3_def)
next
  fix b assume "b < length t"
  with sh have b: "b < B" by (simp add: has_shape3_iff)
  show "t ! b = tabulate3 B N C f ! b"
  proof (rule nth_equalityI)
    from sh b show "length (t ! b) = length (tabulate3 B N C f ! b)"
      by (simp add: has_shape3_iff tabulate3_def)
  next
    fix n assume "n < length (t ! b)"
    with sh b have n: "n < N" by (simp add: has_shape3_iff)
    show "t ! b ! n = tabulate3 B N C f ! b ! n"
    proof (rule nth_equalityI)
      from sh b n show "length (t ! b ! n) = length (tabulate3 B N C f ! b ! n)"
        by (simp add: has_shape3_iff tabulate3_def)
    next
      fix c assume "c < length (t ! b ! n)"
      with sh b n have c: "c < C" by (simp add: has_shape3_iff)
      from v [OF b n c] b n c show "t ! b ! n ! c = tabulate3 B N C f ! b ! n ! c"
        by (simp add: tabulate3_def)
    qed
  qed
qed

lemma map3_tabulate: "map3 g (tabulate3 B N C f) = tabulate3 B N C (\<lambda>b n c. g (f b n c))"
  by (simp add: map3_def tabulate3_def comp_def)

lemma zip_with3_tabulate:
  "zip_with3 g (tabulate3 B N C f) (tabulate3 B N C f') = tabulate3 B N C (\<lambda>b n c. g (f b n c) (f' b n c))"
proof (rule tabulate3_eqI)
  show "has_shape3 B N C (zip_with3 g (tabulate3 B N C f) (tabulate3 B N C f'))"
    by (simp add: has_shape3_iff zip_with3_def tabulate3_def)
next
  fix b n c assume "b < B" "n < N" "c < C"
  then show "zip_with3 g (tabulate3 B N C f) (tabulate3 B N C f') ! b ! n ! c = g (f b n c) (f' b n c)"
    by (simp add: zip_with3_def tabulate3_def)
qed

lemma where3_tabulate:
  "where3 (tabulate3 B N C k) (tabulate3 B N C f) (tabulate3 B N C f') =
     tabulate3 B N C (\<lambda>b n c. if k b n c \<noteq> 0 then f b n c else f' b n c)"
  by (simp add: where3_def zip_with3_tabulate)

lemma broadcast_mul3_tabulate:
  "broadcast_mul3 (tabulate3 B N C f) s =
     tabulate3 B N C (\<lambda>b n c. f b n c * bget (bget (bget s b) n) c)"
  by (simp add: broadcast_mul3_def tabulate3_def)

lemma one_hot_tabulate:
  assumes "has_shape2 B N label"
  shows "map (map (\<lambda>l. nd_one_hot l C)) label =
           tabulate3 B N C (\<lambda>b n c. if int c = label ! b ! n then 1 else 0)"
proof (rule tabulate3_eqI)
  from assms show "has_shape3 B N C (map (map (\<lambda>l. nd_one_hot l C)) label)"
    by (simp add: has_shape3_iff has_shape2_iff nd_one_hot_def)
next
  fix b n c assume "b < B" "n < N" "c < C"
  with assms show "map (map (\<lambda>l. nd_one_hot l C)) label ! b ! n ! c = (if int c = label ! b ! n then 1 else 0)"
    by (simp add: has_shape2_iff nd_one_hot_def)
qed

lemma tensor_tabulate: "has_shape3 B N C t \<Longrightarrow> t = tabulate3 B N C (\<lambda>b n c. t ! b ! n ! c)"
  by (rule tabulate3_eqI) simp_all

lemma map_by_nth: "map f xs = map (\<lambda>i. f (xs ! i)) [0..<length xs]"
  by (rule nth_equalityI) simp_all

lemma sum_list_concat_map:
  fixes g :: "'a \<Rightarrow> real"
  shows "sum_list (map g (concat xss)) = sum_list (map (\<lambda>xs. sum_list (map g xs)) xss)"
  by (induction xss) simp_all

section \<open>Verification of mask cropping\<close>

lemma crop_shape:
  assumes "has_shape3 (length bboxes) h w masks"
  shows "has_shape3 (length bboxes) h w (crop bboxes h w masks)"
  using assms
  by (auto simp: has_shape3_def crop_def Let_def arange_def list_all_length split: prod.splits)

lemma crop_entry:
  assumes sh: "has_shape3 (length bboxes) h w masks"
    and k: "k < length bboxes" and i: "i < h" and j: "j < w"
    and bk: "bboxes ! k = (bx1, by1, bx2, by2)"
  shows "crop bboxes h w masks ! k ! i ! j =
           (if nd_round (by1 / 4) \<le> real i \<and> real i \<le> nd_round (by2 / 4) \<and>
               nd_round (bx1 / 4) \<le> real j \<and> real j \<le> nd_round (bx2 / 4)
            then masks ! k ! i ! j else 0)"
proof -
  from sh k have lm: "length masks = length bboxes" and lk: "length (masks ! k) = h"
    by (simp_all add: has_shape3_def list_all_length)
  from sh k i have lki: "length (masks ! k ! i) = w"
    by (simp add: has_shape3_nth)
  show ?thesis
    using k i j lm lk lki bk
    by (simp add: crop_def Let_def arange_def as_float_def)
qed

text \<open>
  Claim C4. For \<open>bboxes\<close> of shape \<open>(b, 4)\<close> and \<open>masks\<close> of shape \<open>(b, h, w)\<close>,
  \<^verbatim>\<open>crop\<close> returns a tensor of the same shape whose entry \<open>(k, i, j)\<close> is
  \<open>masks[k, i, j]\<close> when \<open>round(bboxes[k, 1] / 4) \<le> i \<le> round(bboxes[k, 3] / 4)\<close> and
  \<open>round(bboxes[k, 0] / 4) \<le> j \<le> round(bboxes[k, 2] / 4)\<close>, and 0 otherwise.
\<close>

theorem crop_zeroes_outside_box:
  assumes "has_shape3 (length bboxes) h w masks"
  shows "has_shape3 (length bboxes) h w (crop bboxes h w masks) \<and>
         (\<forall>k i j bx1 by1 bx2 by2.
            k < length bboxes \<and> i < h \<and> j < w \<and> bboxes ! k = (bx1, by1, bx2, by2) \<longrightarrow>
            crop bboxes h w masks ! k ! i ! j =
              (if nd_round (by1 / 4) \<le> real i \<and> real i \<le> nd_round (by2 / 4) \<and>
                  nd_round (bx1 / 4) \<le> real j \<and> real j \<le> nd_round (bx2 / 4)
               then masks ! k ! i ! j else 0))"
  using assms by (auto simp: crop_shape crop_entry)

text \<open>
  The theorem at one box and a \<open>3 \<times> 3\<close> mask: row 0 and column 0 are zeroed, the
  rest is unchanged.
\<close>

theorem crop_zeroes_outside_box_witness:
  "has_shape3 (length example_boxes) 3 3 example_masks \<and>
   crop example_boxes 3 3 example_masks = [[[0, 0, 0], [0, 5, 6], [0, 8, 9]]] \<and>
   nd_round (2 / 4) = 1 \<and> nd_round (6 / 4) = 2 \<and>
   crop example_boxes 3 3 example_masks ! 0 ! 1 ! 2 = example_masks ! 0 ! 1 ! 2 \<and>
   crop example_boxes 3 3 example_masks ! 0 ! 0 ! 2 = 0"
proof -
  have sh: "has_shape3 (length example_boxes) 3 3 example_masks"
    by (simp add: has_shape3_def example_boxes_def example_masks_def)
  have r: "nd_round (2 / 4) = 1" "nd_round (6 / 4) = 2"
    by (simp_all add: nd_round_def)
  have c: "crop example_boxes 3 3 example_masks = [[[0, 0, 0], [0, 5, 6], [0, 8, 9]]]"
    by (simp add: crop_def Let_def arange_def as_float_def upt_rec nd_round_def
        example_boxes_def example_masks_def)
  have bx: "0 < length example_boxes \<and> (1::nat) < 3 \<and> (2::nat) < 3 \<and> example_boxes ! 0 = (2, 2, 6, 6)"
    "0 < length example_boxes \<and> (0::nat) < 3 \<and> (2::nat) < 3 \<and> example_boxes ! 0 = (2, 2, 6, 6)"
    by (simp_all add: example_boxes_def)
  note t = crop_zeroes_outside_box [OF sh, THEN conjunct2, rule_format]
  have a: "crop example_boxes 3 3 example_masks ! 0 ! 1 ! 2 = example_masks ! 0 ! 1 ! 2"
    using t [OF bx(1)] r by simp
  have b: "crop example_boxes 3 3 example_masks ! 0 ! 0 ! 2 = 0"
    using t [OF bx(2)] r by simp
  from sh r c a b show ?thesis by (simp only: simp_thms)
qed

section \<open>Verification of \<^verbatim>\<open>IOULoss\<close>\<close>

lemma box_iou_spec: "box_iou p g = spec_iou p g"
  unfolding box_iou_def spec_iou_def spec_ain_def spec_union_def Let_def
  by (cases p; cases g) (simp only: prod.case)

lemma masked_row_sum:
  fixes f :: "'a \<Rightarrow> real"
  assumes "length xs = length ls"
  shows "sum_list (map2 (\<lambda>x m. f x * m) xs (map (\<lambda>l. if l > (0::real) then 1 else 0) ls)) =
         sum_list (map (\<lambda>n. f (xs ! n)) (fg_row ls))"
proof -
  let ?n = "length ls"
  let ?zs = "map2 (\<lambda>x m. f x * m) xs (map (\<lambda>l. if l > (0::real) then 1 else 0) ls)"
  have len: "length ?zs = ?n" using assms by simp
  have "sum_list ?zs = (\<Sum>i = 0..<?n. ?zs ! i)"
    by (simp only: sum_list_sum_nth len)
  also have "\<dots> = (\<Sum>i = 0..<?n. if ls ! i > 0 then f (xs ! i) else 0)"
    using assms by (intro sum.cong) simp_all
  also have "\<dots> = sum (\<lambda>i. f (xs ! i)) {i \<in> {0..<?n}. ls ! i > 0}"
    by (rule sum.inter_filter [symmetric]) simp
  also have "\<dots> = sum_list (map (\<lambda>n. f (xs ! n)) (fg_row ls))"
    unfolding fg_row_def by (subst sum_list_distinct_conv_sum_set) simp_all
  finally show ?thesis .
qed

lemma mask_row_count:
  "sum_list (map (\<lambda>l. if l > (0::real) then (1::real) else 0) ls) = real (length (fg_row ls))"
proof -
  let ?zs = "map (\<lambda>l. if l > (0::real) then (1::real) else 0) ls"
  have "sum_list ?zs = (\<Sum>i = 0..<length ls. ?zs ! i)"
    by (simp add: sum_list_sum_nth)
  also have "\<dots> = (\<Sum>i = 0..<length ls. if ls ! i > 0 then 1 else 0)"
    by (intro sum.cong) simp_all
  also have "\<dots> = sum (\<lambda>i. 1) {i \<in> {0..<length ls}. ls ! i > 0}"
    by (rule sum.inter_filter [symmetric]) simp
  also have "\<dots> = real (card (set (fg_row ls)))"
    unfolding fg_row_def by simp
  also have "\<dots> = real (length (fg_row ls))"
  proof -
    have "distinct (fg_row ls)" by (simp add: fg_row_def)
    then show ?thesis by (simp only: distinct_card)
  qed
  finally show ?thesis .
qed

lemma IOULoss_forward_loss:
  assumes sh: "same_shape2 pred label" "same_shape2 gt label"
  shows "sum_all (map2 (map2 (\<lambda>i m. - ln (min (i + eps) 1) * m)) (map2 (map2 box_iou) pred gt)
             (map (map (\<lambda>l. if l > 0 then 1 else 0)) label)) =
         (\<Sum>(b, n) \<leftarrow> fg_positions label. - ln (min (spec_iou (pred ! b ! n) (gt ! b ! n) + eps) 1))"
    and "sum_all (map (map (\<lambda>l. if l > 0 then 1 else 0)) label) = real (length (fg_positions label))"
proof -
  let ?B = "length label"
  from sh have lp: "length pred = ?B" and lg: "length gt = ?B"
    and rp: "\<And>b. b < ?B \<Longrightarrow> length (pred ! b) = length (label ! b)"
    and rg: "\<And>b. b < ?B \<Longrightarrow> length (gt ! b) = length (label ! b)"
    by (auto simp: same_shape2_def list_all2_conv_all_nth)
  let ?f = "\<lambda>i. - ln (min (i + eps) 1)"
  let ?loss = "map2 (map2 (\<lambda>i m. ?f i * m)) (map2 (map2 box_iou) pred gt)
             (map (map (\<lambda>l. if l > (0::real) then (1::real) else 0)) label)"
  have row: "sum_list (?loss ! b) =
      sum_list (map (\<lambda>n. ?f (spec_iou (pred ! b ! n) (gt ! b ! n))) (fg_row (label ! b)))"
    if b: "b < ?B" for b
  proof -
    let ?ious = "map2 box_iou (pred ! b) (gt ! b)"
    have l: "length ?ious = length (label ! b)" using rp [OF b] rg [OF b] by simp
    have "?loss ! b = map2 (\<lambda>i m. ?f i * m) ?ious (map (\<lambda>l. if l > 0 then 1 else 0) (label ! b))"
      using b lp lg by simp
    also have "sum_list \<dots> = sum_list (map (\<lambda>n. ?f (?ious ! n)) (fg_row (label ! b)))"
      using l by (rule masked_row_sum)
    also have "\<dots> = sum_list (map (\<lambda>n. ?f (spec_iou (pred ! b ! n) (gt ! b ! n))) (fg_row (label ! b)))"
      using rp [OF b] rg [OF b]
      by (intro arg_cong [where f = sum_list] map_cong) (auto simp: fg_row_def box_iou_spec)
    finally show ?thesis .
  qed
  have len: "length ?loss = ?B" using lp lg by simp
  have "sum_all ?loss = sum_list (map (\<lambda>b. sum_list (?loss ! b)) [0..<?B])"
    unfolding sum_all_def using len by (subst map_by_nth) simp
  also have "\<dots> = sum_list (map (\<lambda>b. sum_list (map (\<lambda>n. ?f (spec_iou (pred ! b ! n) (gt ! b ! n)))
        (fg_row (label ! b)))) [0..<?B])"
    by (rule arg_cong [where f = sum_list], rule map_cong [OF refl], rule row, simp)
  also have "\<dots> = (\<Sum>(b, n) \<leftarrow> fg_positions label. ?f (spec_iou (pred ! b ! n) (gt ! b ! n)))"
    by (simp add: fg_positions_def sum_list_concat_map comp_def)
  finally show "sum_all ?loss =
      (\<Sum>(b, n) \<leftarrow> fg_positions label. - ln (min (spec_iou (pred ! b ! n) (gt ! b ! n) + eps) 1))" .
  have "sum_all (map (map (\<lambda>l. if l > 0 then 1 else 0)) label) =
      sum_list (map (\<lambda>ls. real (length (fg_row ls))) label)"
    by (simp add: sum_all_def comp_def mask_row_count)
  also have "\<dots> = real (length (fg_positions label))"
  proof -
    have "length (fg_positions label) = sum_list (map (\<lambda>b. length (fg_row (label ! b))) [0..<?B])"
      by (simp add: fg_positions_def length_concat comp_def)
    also have "\<dots> = sum_list (map (\<lambda>ls. length (fg_row ls)) label)"
      by (subst (2) map_by_nth) simp
    finally show ?thesis by (simp add: sum_list_of_nat [symmetric] comp_def)
  qed
  finally show "sum_all (map (map (\<lambda>l. if l > 0 then 1 else 0)) label) = real (length (fg_positions label))" .
qed

text \<open>
  Claim C3. For \<open>pred\<close> and \<open>gt\<close> of shape \<open>(B, N, 4)\<close> and \<open>label\<close> of shape
  \<open>(B, N)\<close>, \<^verbatim>\<open>IOULoss.hybrid_forward\<close> computes for every box pair the value
  \<open>ious = max (ain / union) 0\<close> with \<open>ain\<close> and \<open>union\<close> as the claim gives them
  (\<open>spec_ain\<close>, \<open>spec_union\<close>), and returns the sum of \<open>- log (min (ious + eps) 1)\<close>
  over the foreground entries divided by the maximum of their number and 1; with
  \<^verbatim>\<open>return_iou\<close> it returns this scalar together with the whole \<open>ious\<close> tensor,
  otherwise the scalar alone.
\<close>

theorem IOULoss_forward_formula:
  assumes "same_shape2 pred label" and "same_shape2 gt label"
  shows "IOULoss_forward self pred gt label =
           (if il_return_iou self
            then LossAndIou (iou_loss_value self pred gt label) (map2 (map2 spec_iou) pred gt)
            else LossOnly (iou_loss_value self pred gt label)) \<and>
         same_shape2 (map2 (map2 spec_iou) pred gt) label \<and>
         (\<forall>b n. b < length label \<and> n < length (label ! b) \<longrightarrow>
            map2 (map2 spec_iou) pred gt ! b ! n = spec_iou (pred ! b ! n) (gt ! b ! n))"
proof -
  have e: "map2 (map2 box_iou) pred gt = map2 (map2 spec_iou) pred gt"
    by (simp add: box_iou_spec [abs_def])
  note s = IOULoss_forward_loss(1) [OF assms, where eps = "il_eps self"]
    IOULoss_forward_loss(2) [OF assms]
  have 1: "IOULoss_forward self pred gt label =
           (if il_return_iou self
            then LossAndIou (iou_loss_value self pred gt label) (map2 (map2 spec_iou) pred gt)
            else LossOnly (iou_loss_value self pred gt label))"
    unfolding IOULoss_forward_def Let_def s iou_loss_value_def by (simp only: e)
  from assms have 2: "same_shape2 (map2 (map2 spec_iou) pred gt) label"
    by (auto simp: same_shape2_def list_all2_conv_all_nth)
  from assms have 3: "\<forall>b n. b < length label \<and> n < length (label ! b) \<longrightarrow>
            map2 (map2 spec_iou) pred gt ! b ! n = spec_iou (pred ! b ! n) (gt ! b ! n)"
    by (auto simp: same_shape2_def list_all2_conv_all_nth)
  from 1 2 3 show ?thesis by blast
qed

text \<open>
  The theorem at two box pairs of which the first is in the foreground: its IoU value
  5/4 is cut at 1, so the loss is 0, and both IoU values are returned.
\<close>

theorem IOULoss_forward_formula_witness:
  "same_shape2 example_pred example_label \<and>
   same_shape2 example_gt example_label \<and>
   IOULoss_forward example_iou_loss example_pred example_gt example_label =
     LossAndIou 0 [[5/4, 1/8]]"
proof -
  have a: "same_shape2 example_pred example_label" "same_shape2 example_gt example_label"
    by (simp_all add: same_shape2_def example_pred_def example_gt_def example_label_def)
  have i: "spec_iou (0, 0, 1, 1) (0, 0, 1, 1) = 5/4" "spec_iou (0, 0, 1, 1) (5, 5, 6, 6) = 1/8"
    by (simp_all add: spec_iou_def spec_union_def spec_ain_def)
  have f: "fg_positions example_label = [(0, 0)]"
    by (simp add: fg_positions_def fg_row_def example_label_def)
  have v: "iou_loss_value example_iou_loss example_pred example_gt example_label = 0"
    by (simp add: iou_loss_value_def f i example_iou_loss_def example_pred_def example_gt_def)
  have m: "map2 (map2 spec_iou) example_pred example_gt = [[5/4, 1/8]]"
    by (simp add: example_pred_def example_gt_def i)
  have r: "il_return_iou example_iou_loss" by (simp add: example_iou_loss_def)
  from IOULoss_forward_formula [OF a, where self = example_iou_loss, THEN conjunct1] a
  show ?thesis by (simp only: v m r if_True simp_thms)
qed

section \<open>Verification of \<^verbatim>\<open>FocalLoss\<close>\<close>

lemma apply_weighting_tabulate:
  "apply_weighting (tabulate3 B N C f) w sw =
     tabulate3 B N C (\<lambda>b n c. f b n c * (sample_weight_at sw b n c * weight_factor w))"
  by (cases w; cases sw)
     (simp_all add: apply_weighting_def broadcast_mul3_tabulate map3_tabulate
        sample_weight_at_def weight_factor_def mult.assoc)

lemma kept_axis_less: "kept_axis a = Inr k \<Longrightarrow> k < 3"
  by (auto simp: kept_axis_def split: if_splits)

lemma shape3_tabulate:
  "0 < B \<Longrightarrow> 0 < N \<Longrightarrow> shape3 (tabulate3 B N C f) = (B, N, C)"
  by (simp add: shape3_def tabulate3_def upt_conv_Cons)

lemma along_axis_tabulate:
  assumes "k = 0 \<or> (0 < B \<and> 0 < N)"
  shows "along_axis k (tabulate3 B N C f) = map (batch_element k B N C f) [0..<batch_size k B N C]"
proof (cases "k = 0")
  case True
  then show ?thesis
    by (simp add: along_axis_def batch_element_def batch_size_def tabulate3_def comp_def split: prod.splits)
next
  case False
  with assms have pos: "0 < B" "0 < N" by simp_all
  have row: "map (\<lambda>c. tabulate3 B N C f ! b ! n ! c) [0..<C] = map (\<lambda>c. f b n c) [0..<C]"
    if "b < B" "n < N" for b n
    using that by (simp add: tabulate3_nth)
  have col: "map (\<lambda>n. tabulate3 B N C f ! b ! n ! c) [0..<N] = map (\<lambda>n. f b n c) [0..<N]"
    if "b < B" "c < C" for b c
    using that by (simp add: tabulate3_nth)
  show ?thesis
  proof (cases "k = 1")
    case True
    have "map (\<lambda>i. concat (map (\<lambda>b. map (\<lambda>c. tabulate3 B N C f ! b ! i ! c) [0..<C]) [0..<B])) [0..<N]
        = map (\<lambda>i. concat (map (\<lambda>b. map (\<lambda>c. f b i c) [0..<C]) [0..<B])) [0..<N]"
      by (rule map_cong [OF refl], rule arg_cong [where f = concat], rule map_cong [OF refl])
         (simp add: row)
    with True show ?thesis
      by (simp add: along_axis_def shape3_tabulate [OF pos] batch_element_def batch_size_def)
  next
    case k2: False
    have "map (\<lambda>i. concat (map (\<lambda>b. map (\<lambda>n. tabulate3 B N C f ! b ! n ! i) [0..<N]) [0..<B])) [0..<C]
        = map (\<lambda>i. concat (map (\<lambda>b. map (\<lambda>n. f b n i) [0..<N]) [0..<B])) [0..<C]"
      by (rule map_cong [OF refl], rule arg_cong [where f = concat], rule map_cong [OF refl])
         (simp add: col)
    with False k2 show ?thesis
      by (simp add: along_axis_def shape3_tabulate [OF pos] batch_element_def batch_size_def)
  qed
qed

lemma focal_loss_tensor:
  assumes p: "has_shape3 B N C pred" and l: "has_shape2 B N label"
  shows "apply_weighting
           (zip_with3 (\<lambda>a p. - a * power_scalar (1 - p) (fl_gamma self) * ln (min (p + fl_eps self) 1))
              (where3 (map (map (\<lambda>l. nd_one_hot l C)) label)
                 (map3 (\<lambda>x. fl_alpha self * x) (map3 (\<lambda>_. 1) (map (map (\<lambda>l. nd_one_hot l C)) label)))
                 (map3 (\<lambda>x. (1 - fl_alpha self) * x) (map3 (\<lambda>_. 1) (map (map (\<lambda>l. nd_one_hot l C)) label))))
              (where3 (map (map (\<lambda>l. nd_one_hot l C)) label)
                 (if \<not> fl_from_logits self then map3 sigmoid pred else pred)
                 (map3 (\<lambda>p. 1 - p) (if \<not> fl_from_logits self then map3 sigmoid pred else pred))))
           (fl_weight self) sw
         = tabulate3 B N C (\<lambda>b n c. focal_term self (pred ! b ! n ! c) (int c = label ! b ! n)
                  * (sample_weight_at sw b n c * weight_factor (fl_weight self)))"
proof -
  note oh = one_hot_tabulate [OF l, of C]
  note pt = tensor_tabulate [OF p]
  let ?P = "\<lambda>b n c. if fl_from_logits self then pred ! b ! n ! c else sigmoid (pred ! b ! n ! c)"
  have pred': "(if \<not> fl_from_logits self then map3 sigmoid pred else pred) = tabulate3 B N C ?P"
    by (subst (1 2) pt) (simp add: map3_tabulate)
  have loss: "zip_with3 (\<lambda>a p. - a * power_scalar (1 - p) (fl_gamma self) * ln (min (p + fl_eps self) 1))
      (where3 (tabulate3 B N C (\<lambda>b n c. if int c = label ! b ! n then 1 else 0))
         (map3 (\<lambda>x. fl_alpha self * x) (map3 (\<lambda>_. 1) (tabulate3 B N C (\<lambda>b n c. if int c = label ! b ! n then (1::real) else 0))))
         (map3 (\<lambda>x. (1 - fl_alpha self) * x) (map3 (\<lambda>_. 1) (tabulate3 B N C (\<lambda>b n c. if int c = label ! b ! n then (1::real) else 0)))))
      (where3 (tabulate3 B N C (\<lambda>b n c. if int c = label ! b ! n then 1 else 0))
         (tabulate3 B N C ?P) (map3 (\<lambda>p. 1 - p) (tabulate3 B N C ?P)))
      = tabulate3 B N C (\<lambda>b n c. focal_term self (pred ! b ! n ! c) (int c = label ! b ! n))"
    by (simp only: map3_tabulate where3_tabulate zip_with3_tabulate)
       (rule arg_cong [where f = "tabulate3 B N C"], intro ext,
        simp add: focal_term_def focal_alpha_t_def focal_p_t_def Let_def)
  show ?thesis
    unfolding pred' oh loss apply_weighting_tabulate ..
qed

lemma focal_reduce_sparse:
  assumes p: "has_shape3 B N C pred" and l: "has_shape2 B N label"
    and a: "kept_axis (fl_batch_axis self) = Inr k"
    and pos: "k = 0 \<or> (0 < B \<and> 0 < N)"
  shows "focal_reduce self pred (map (map (\<lambda>l. nd_one_hot l C)) label) sw =
         Inr (map (\<lambda>i. focal_reduction self
            (batch_element k B N C
               (\<lambda>b n c. focal_term self (pred ! b ! n ! c) (int c = label ! b ! n)
                  * (sample_weight_at sw b n c * weight_factor (fl_weight self))) i))
           [0..<batch_size k B N C])"
  unfolding focal_reduce_def Let_def focal_loss_tensor [OF p l]
  by (simp add: mean_exclude_def sum_exclude_def a along_axis_tabulate [OF pos] focal_reduction_def comp_def)

lemma focal_reduce_bad_axis:
  assumes "kept_axis (fl_batch_axis self) = Inl e"
  shows "focal_reduce self pred one_hot sw = Inl e"
  using assms by (simp add: focal_reduce_def Let_def mean_exclude_def sum_exclude_def)

lemma FocalLoss_init_fields:
  assumes "FocalLoss_init axis alpha gamma sparse_label from_logits batch_axis weight num_class eps size_average = Inr self"
  shows "fl_sparse_label self = sparse_label" "fl_weight self = weight" "fl_num_class self = num_class"
    "fl_batch_axis self = batch_axis"
  using assms by (auto simp: FocalLoss_init_def split: if_splits)

text \<open>
  Claim C6, as amended. For a \<^verbatim>\<open>FocalLoss\<close> built with \<^verbatim>\<open>sparse_label=True\<close>
  (so \<^verbatim>\<open>num_class\<close> has passed the constructor's check) and a \<^verbatim>\<open>batch_axis\<close> that
  names axis \<open>k\<close> of a tensor of rank 3, \<open>pred\<close> of shape \<open>(B, N, num_class)\<close>, \<open>label\<close> of
  shape \<open>(B, N)\<close> and a sample weight, if given, that broadcasts to the shape of \<open>pred\<close>,
  the forward pass returns for each index of axis \<open>k\<close> the mean (with
  \<^verbatim>\<open>size_average\<close>; the sum otherwise) over the two other axes of
  \<open>- alpha_t * (1 - p_t) ^ gamma * log (min (p_t + eps) 1)\<close>
  \<^emph>\<open>multiplied by the entry of \<^verbatim>\<open>sample_weight\<close> and by the global \<^verbatim>\<open>weight\<close>,
  where given\<close>; the output has one entry for each index of axis \<open>k\<close>, so its shape is
  \<open>(batch_size)\<close>. Without a global weight and a sample weight this is the value the
  claim states. (For a batch axis other than the first, the tensors are not empty.)
\<close>

theorem FocalLoss_forward_weighted_mean:
  assumes "FocalLoss_init axis alpha gamma True from_logits batch_axis weight num_class eps size_average = Inr self"
    and "has_shape3 B N (num_classes self) pred"
    and "has_shape2 B N label"
    and "sample_weight_fits B N (num_classes self) sw"
    and "kept_axis batch_axis = Inr k"
    and "k = 0 \<or> (0 < B \<and> 0 < N)"
  shows "FocalLoss_forward self pred (SparseLabel label) sw = Inr (focal_weighted self k B N pred label sw) \<and>
         length (focal_weighted self k B N pred label sw) = batch_size k B N (num_classes self) \<and>
         batch_size k B N (num_classes self) = [B, N, num_classes self] ! k \<and>
         (weight = None \<longrightarrow>
            FocalLoss_forward self pred (SparseLabel label) None = Inr (focal_claimed self k B N pred label))"
proof -
  note f = FocalLoss_init_fields [OF assms(1)]
  from assms(5) have a: "kept_axis (fl_batch_axis self) = Inr k"
    by (simp add: f(4))
  have fw: "FocalLoss_forward self pred (SparseLabel label) sw' = Inr (focal_weighted self k B N pred label sw')" for sw'
    by (simp add: FocalLoss_forward_def f(1) focal_weighted_def
        focal_reduce_sparse [OF assms(2,3) a assms(6)])
  have cl: "focal_weighted self k B N pred label None = focal_claimed self k B N pred label" if "weight = None"
    using that by (simp add: focal_weighted_def focal_claimed_def f sample_weight_at_def weight_factor_def)
  from kept_axis_less [OF assms(5)] have "k = 0 \<or> k = 1 \<or> k = 2" by arith
  then have bs: "batch_size k B N (num_classes self) = [B, N, num_classes self] ! k"
    by (auto simp: batch_size_def)
  show ?thesis
    using fw [of sw] fw [of None] cl bs by (simp add: focal_weighted_def)
qed

lemma ln_half: "ln (1/2 :: real) = - ln 2"
  by (simp add: ln_div)

lemma weighted_focal_values:
  "focal_term weighted_focal (1/2) True = ln 2 / 16"
  "num_classes weighted_focal = 1"
  by (simp_all add: focal_term_def focal_alpha_t_def focal_p_t_def power_scalar_def weighted_focal_def
      num_classes_def int_value_def ln_half power2_eq_square)

lemma axis_focal_values:
  "focal_term axis_focal (1/2) True = ln 2 / 16"
  "focal_term axis_focal (1/2) False = 3 * ln 2 / 16"
  "num_classes axis_focal = 2"
  "fl_weight axis_focal = Some 2"
  "fl_size_average axis_focal"
  by (simp_all add: focal_term_def focal_alpha_t_def focal_p_t_def power_scalar_def axis_focal_def
      num_classes_def int_value_def ln_half power2_eq_square)

text \<open>
  The theorem at \<^verbatim>\<open>FocalLoss(batch_axis=1, weight=2.0, num_class=2, from_logits=True,
  eps=0)\<close>, \<open>pred\<close> of shape \<open>(2, 1, 2)\<close> with every entry 1/2, the labels 0 and 1 and the
  sample weights 3 and 1 of shape \<open>(2, 1, 1)\<close>. The batch axis has length 1, so the output
  has one entry: the mean over the four entries of the first and the last axis. An entry
  at its label's class has the unweighted term \<open>ln 2 / 16\<close>, one elsewhere
  \<open>3 * ln 2 / 16\<close>; with the weights the four terms are \<open>6 * ln 2 / 16\<close>,
  \<open>18 * ln 2 / 16\<close>, \<open>6 * ln 2 / 16\<close> and \<open>2 * ln 2 / 16\<close>, of mean \<open>ln 2 / 2\<close>.
\<close>

theorem FocalLoss_forward_weighted_mean_witness:
  "FocalLoss_init (-1) (1/4) 2 True True 1 (Some 2) (PyInt 2) 0 True = Inr axis_focal \<and>
   has_shape3 2 1 (num_classes axis_focal) axis_pred \<and>
   has_shape2 2 1 axis_label \<and>
   sample_weight_fits 2 1 (num_classes axis_focal) (Some axis_sample_weight) \<and>
   kept_axis 1 = Inr 1 \<and>
   FocalLoss_forward axis_focal axis_pred (SparseLabel axis_label) (Some axis_sample_weight) = Inr [ln 2 / 2] \<and>
   batch_size 1 2 1 (num_classes axis_focal) = 1"
proof -
  have i: "FocalLoss_init (-1) (1/4) 2 True True 1 (Some 2) (PyInt 2) 0 True = Inr axis_focal"
    by (simp add: FocalLoss_init_def axis_focal_def isinstance_int_def int_value_def)
  have p: "has_shape3 2 1 (num_classes axis_focal) axis_pred"
    by (simp add: has_shape3_def axis_focal_values axis_pred_def)
  have l: "has_shape2 2 1 axis_label"
    by (simp add: has_shape2_def axis_label_def)
  have s: "sample_weight_fits 2 1 (num_classes axis_focal) (Some axis_sample_weight)"
    by (simp add: sample_weight_fits_def shape3_def has_shape3_def fits_axis_def axis_sample_weight_def)
  have k: "kept_axis 1 = Inr 1"
    by (simp add: kept_axis_def)
  have n: "(1::nat) = 0 \<or> (0 < (2::nat) \<and> 0 < (1::nat))"
    by simp
  have v: "focal_weighted axis_focal 1 2 1 axis_pred axis_label (Some axis_sample_weight) = [ln 2 / 2]"
    by (simp add: focal_weighted_def batch_element_def batch_size_def focal_reduction_def mean_def
        axis_focal_values sample_weight_at_def weight_factor_def bget_def axis_pred_def axis_label_def
        axis_sample_weight_def upt_rec)
  from FocalLoss_forward_weighted_mean [OF i p l s k n] i p l s k v
  show ?thesis by simp
qed

text \<open>
  Claim C6 as stated fails for a block built with a global weight: with
  \<^verbatim>\<open>weight=2.0\<close> the output is twice the mean the claim gives.
\<close>

theorem FocalLoss_forward_weight_counterexample:
  "FocalLoss_init (-1) (1/4) 2 True True 0 (Some 2) (PyInt 1) 0 True = Inr weighted_focal \<and>
   FocalLoss_forward weighted_focal [[[1/2]]] (SparseLabel [[0]]) None = Inr [ln 2 / 8] \<and>
   focal_claimed weighted_focal 0 1 1 [[[1/2]]] [[0]] = [ln 2 / 16] \<and>
   FocalLoss_forward weighted_focal [[[1/2]]] (SparseLabel [[0]]) None
     \<noteq> Inr (focal_claimed weighted_focal 0 1 1 [[[1/2]]] [[0]])"
proof -
  have i: "FocalLoss_init (-1) (1/4) 2 True True 0 (Some 2) (PyInt 1) 0 True = Inr weighted_focal"
    by (simp add: FocalLoss_init_def weighted_focal_def isinstance_int_def int_value_def)
  have a: "FocalLoss_forward weighted_focal [[[1/2]]] (SparseLabel [[0]]) None = Inr [ln 2 / 8]"
    by (simp add: FocalLoss_forward_def focal_reduce_def nd_one_hot_def map3_def where3_def
        zip_with3_def apply_weighting_def mean_exclude_def kept_axis_def along_axis_def shape3_def
        mean_def Let_def power_scalar_def int_value_def
        num_classes_def weighted_focal_def ln_half power2_eq_square)
  have b: "focal_claimed weighted_focal 0 1 1 [[[1/2]]] [[0]] = [ln 2 / 16]"
    by (simp add: focal_claimed_def batch_element_def batch_size_def focal_reduction_def mean_def
        weighted_focal_values)
  have "ln (2::real) > 0" by simp
  then have c: "ln 2 / 8 \<noteq> (ln 2 / 16 :: real)" by simp
  from i a b c show ?thesis by simp
qed

section \<open>Verification of hard-negative mining and the loss reduction\<close>

subsection \<open>\<^verbatim>\<open>argsort\<close> and ranks\<close>

lemma argsort_length [simp]: "length (argsort xs) = length xs"
  by (simp add: argsort_def)

lemma argsort_set [simp]: "set (argsort xs) = {0..<length xs}"
  by (simp add: argsort_def)

lemma argsort_distinct [simp]: "distinct (argsort xs)"
  by (simp add: argsort_def)

lemma argsort_sorted: "sorted (map (\<lambda>i. xs ! i) (argsort xs))"
  by (simp add: argsort_def)

lemma argsort_nth_less: "j < length xs \<Longrightarrow> argsort xs ! j < length xs"
proof -
  assume "j < length xs"
  then have "argsort xs ! j \<in> set (argsort xs)" by (intro nth_mem) simp
  then show ?thesis by simp
qed

lemma argsort_inverse:
  assumes d: "distinct p" and s: "set p = {0..<length p}" and j: "j < length p"
  shows "p ! (argsort p ! j) = j"
proof -
  let ?q = "argsort p"
  let ?m = "map (\<lambda>i. p ! i) ?q"
  have "set ?m = (\<lambda>i. p ! i) ` {0..<length p}" by simp
  also have "\<dots> = set p" by (auto simp: set_conv_nth)
  finally have "set ?m = set p" .
  with s have sm: "set ?m = set [0..<length p]" by simp
  have "inj_on (\<lambda>i. p ! i) {0..<length p}"
    using d by (auto simp: inj_on_def nth_eq_iff_index_eq)
  then have dm: "distinct ?m" by (simp add: distinct_map)
  have "sorted ?m" by (rule argsort_sorted)
  then have "?m = [0..<length p]"
    using dm sm by (intro sorted_distinct_set_unique) simp_all
  then have "?m ! j = [0..<length p] ! j" by simp
  with j show ?thesis by simp
qed

lemma rank_position:
  assumes j: "j < length xs"
  shows "argsort xs ! (argsort (argsort xs) ! j) = j"
  using argsort_inverse [of "argsort xs" j] j by simp

lemma rank_less:
  assumes a: "a < length xs" and b: "b < length xs" and lt: "xs ! a < xs ! b"
  shows "argsort (argsort xs) ! a < argsort (argsort xs) ! b"
proof (rule ccontr)
  let ?p = "argsort xs"
  let ?r = "argsort ?p"
  assume "\<not> ?r ! a < ?r ! b"
  then have le: "?r ! b \<le> ?r ! a" by simp
  have ra: "?r ! a < length xs" using argsort_nth_less [of a ?p] a by simp
  have "sorted (map (\<lambda>i. xs ! i) ?p)" by (rule argsort_sorted)
  from sorted_nth_mono [OF this le]
  have "map (\<lambda>i. xs ! i) ?p ! (?r ! b) \<le> map (\<lambda>i. xs ! i) ?p ! (?r ! a)"
    using ra by simp
  then have "xs ! (?p ! (?r ! b)) \<le> xs ! (?p ! (?r ! a))"
    using le ra by simp
  then have "xs ! b \<le> xs ! a"
    using rank_position [OF a] rank_position [OF b] by simp
  with lt show False by simp
qed

subsection \<open>The mined classification loss\<close>

lemma same_shape2_iff:
  "same_shape2 s t \<longleftrightarrow> length s = length t \<and> (\<forall>b < length t. length (s ! b) = length (t ! b))"
  by (auto simp: same_shape2_def list_all2_conv_all_nth)

lemma cross_entropy_shape:
  assumes "same_shape2 cp ct"
  shows "length (cross_entropy cp ct) = length ct"
    and "b < length ct \<Longrightarrow> length (cross_entropy cp ct ! b) = length (ct ! b)"
  using assms by (simp_all add: cross_entropy_def same_shape2_iff)

lemma pos_row_sum: "sum_list (map (\<lambda>c. as_float (c > (0::int))) row) = real (num_positive row)"
  by (induction row) (simp_all add: num_positive_def as_float_def)

lemma masked_key:
  "map2 (\<lambda>l p. l * (p - 1)) ce (map (\<lambda>c. as_float (c > (0::int))) row) = masked_negated_loss ce row"
  by (auto simp: masked_negated_loss_def zip_map2 as_float_def)

lemma anchor_rank_length: "length ce = length ct \<Longrightarrow> length (anchor_rank ce ct) = length ct"
  by (simp add: anchor_rank_def masked_negated_loss_def)

lemma mined_cls_loss_row:
  assumes sh: "same_shape2 cp ct" and b: "b < length ct"
  shows "mined_cls_loss (ssd_min_hard_negatives self) (ssd_negative_mining_ratio self) cp ct ! b =
         map (contribution self (cross_entropy cp ct ! b) (ct ! b)) [0..<length (ct ! b)]"
proof -
  let ?ce = "cross_entropy cp ct"
  let ?mhn = "ssd_min_hard_negatives self"
  let ?ratio = "ssd_negative_mining_ratio self"
  note l = cross_entropy_shape [OF sh]
  have lb: "length (?ce ! b) = length (ct ! b)" using l(2) b by simp
  let ?pos = "map (map (\<lambda>c. as_float (c > (0::int)))) ct"
  let ?rank = "mining_rank ?ce ?pos"
  let ?limit = "map (\<lambda>prow. max ?mhn (sum_list prow * ?ratio)) ?pos"
  let ?hn = "map2 (\<lambda>rrow lim. map (\<lambda>r. as_float (real r < lim)) rrow) ?rank ?limit"
  let ?ar = "anchor_rank (?ce ! b) (ct ! b)"
  have lm: "length ?rank = length ct"
    using l(1) by (simp add: mining_rank_def)
  have rk: "?rank ! b = ?ar"
    using b l(1) by (simp add: mining_rank_def anchor_rank_def masked_key)
  have lr: "length ?ar = length (ct ! b)"
    using lb by (rule anchor_rank_length)
  have lim: "?limit ! b = mining_limit self (ct ! b)"
    using b by (simp add: pos_row_sum mining_limit_def)
  define posb where "posb = ?pos ! b"
  define hnb where "hnb = ?hn ! b"
  have posb: "posb = map (\<lambda>c. as_float (c > 0)) (ct ! b)"
    using b by (simp add: posb_def)
  have hnb: "hnb = map (\<lambda>r. as_float (real r < mining_limit self (ct ! b))) ?ar"
    unfolding hnb_def using b lm by (simp add: rk pos_row_sum mining_limit_def)
  have lhn: "length ?hn = length ct" using lm by simp
  have "mined_cls_loss ?mhn ?ratio cp ct ! b =
      map2 (\<lambda>(p, h) l. if p + h > 0 then l else 0) (zip posb hnb) (?ce ! b)"
    unfolding mined_cls_loss_def Let_def posb_def hnb_def using b l(1) lhn by simp
  also have "\<dots> = map (contribution self (?ce ! b) (ct ! b)) [0..<length (ct ! b)]"
  proof (rule nth_equalityI)
    show "length (map2 (\<lambda>(p, h) l. if p + h > 0 then l else 0) (zip posb hnb) (?ce ! b)) =
        length (map (contribution self (?ce ! b) (ct ! b)) [0..<length (ct ! b)])"
      using lb lr by (simp add: posb hnb)
  next
    fix j assume "j < length (map2 (\<lambda>(p, h) l. if p + h > 0 then l else 0) (zip posb hnb) (?ce ! b))"
    then have j: "j < length (ct ! b)" using lb lr by (simp add: posb hnb)
    then show "map2 (\<lambda>(p, h) l. if p + h > 0 then l else 0) (zip posb hnb) (?ce ! b) ! j =
        map (contribution self (?ce ! b) (ct ! b)) [0..<length (ct ! b)] ! j"
      using lb lr by (simp add: posb hnb contribution_def as_float_def)
  qed
  finally show ?thesis .
qed

subsection \<open>The forward pass\<close>

lemma sum_list_zeros: "sum_list (map (\<lambda>_. 0::real) xs) = 0"
  by (induction xs) simp_all

lemma zero_sum3_zero: "zero_sum3 x = [0]"
proof -
  have "concat (concat (map3 (\<lambda>v. v * 0) x)) = map (\<lambda>_. 0) (concat (concat x))"
    by (simp add: map3_def map_concat comp_def)
  then show ?thesis by (simp add: zero_sum3_def sum_list_zeros)
qed

lemma pos_samples_sum_count: "pos_samples_sum ct = real (sum_list (map num_positive ct))"
  by (induction ct) (simp_all add: pos_samples_sum_def sum_all_def pos_row_sum)

lemma num_pos_all_count: "num_pos_all devices = real (total_positive devices)"
  by (induction devices) (auto simp: num_pos_all_def total_positive_def pos_samples_sum_count)

lemma SSD_forward_main:
  assumes "\<not> ssd_early_return self (ssd_devices cls_pred box_pred cls_target box_target)"
  shows "SSDMultiBoxLoss_forward self cls_pred box_pred cls_target box_target =
     (let devices = ssd_devices cls_pred box_pred cls_target box_target; n = num_pos_all devices in
      (map (\<lambda>dev. map2 (\<lambda>c b. c + ssd_lambd self * b) (ssd_device_cls self n dev) (ssd_device_box self n dev))
              devices,
       map (ssd_device_cls self n) devices,
       map (ssd_device_box self n) devices))"
  using assms by (auto simp: SSDMultiBoxLoss_forward_def ssd_devices_def ssd_early_return_def Let_def)

lemma SSD_forward_early:
  assumes "ssd_early_return self (ssd_devices cls_pred box_pred cls_target box_target)"
  shows "SSDMultiBoxLoss_forward self cls_pred box_pred cls_target box_target =
     (map2 (\<lambda>cp bp. [0]) (as_list cls_pred) (as_list box_pred),
      map (\<lambda>cp. [0]) (as_list cls_pred),
      map (\<lambda>bp. [0]) (as_list box_pred))"
  using assms
  by (simp add: SSDMultiBoxLoss_forward_def ssd_devices_def ssd_early_return_def Let_def zero_sum3_zero)

text \<open>
  Claim C1. In the main branch of \<^verbatim>\<open>SSDMultiBoxLoss.forward\<close>, for every device
  \<open>d\<close> and every row \<open>b\<close> of its batch, the classification loss is the sum of the
  anchors' contributions divided by \<open>max 1 num_pos_all\<close>, where by the definition of
  \<open>contribution\<close> a positive anchor (\<open>cls_target > 0\<close>) contributes its
  cross-entropy loss, an anchor that is not positive contributes its loss if and only
  if its rank, the double \<^verbatim>\<open>argsort\<close> of the negated loss masked to the negatives,
  is strictly less than
  \<open>max min_hard_negatives (number of positives in the row * negative_mining_ratio)\<close>,
  and contributes zero otherwise. The ranks order the negatives by descending loss: a
  negative with a strictly larger loss has a strictly smaller rank.
\<close>

theorem hard_negative_mining:
  assumes main: "\<not> ssd_early_return self (ssd_devices cls_pred box_pred cls_target box_target)"
    and d: "d < length (ssd_devices cls_pred box_pred cls_target box_target)"
    and dev: "ssd_devices cls_pred box_pred cls_target box_target ! d = (cp, bp, ct, bt)"
    and sh: "same_shape2 cp ct"
    and b: "b < length ct"
  shows "cls_losses (SSDMultiBoxLoss_forward self cls_pred box_pred cls_target box_target) ! d ! b =
           (\<Sum>j\<leftarrow>[0..<length (ct ! b)]. contribution self (cross_entropy cp ct ! b) (ct ! b) j)
             / max 1 (num_pos_all (ssd_devices cls_pred box_pred cls_target box_target)) \<and>
         (\<forall>j j'. j < length (ct ! b) \<and> j' < length (ct ! b) \<and> ct ! b ! j \<le> 0 \<and> ct ! b ! j' \<le> 0 \<and>
                 cross_entropy cp ct ! b ! j' < cross_entropy cp ct ! b ! j \<longrightarrow>
                 anchor_rank (cross_entropy cp ct ! b) (ct ! b) ! j
                   < anchor_rank (cross_entropy cp ct ! b) (ct ! b) ! j')"
proof
  let ?devs = "ssd_devices cls_pred box_pred cls_target box_target"
  let ?mined = "mined_cls_loss (ssd_min_hard_negatives self) (ssd_negative_mining_ratio self) cp ct"
  have lm: "length ?mined = length ct"
    using cross_entropy_shape(1) [OF sh]
    by (simp add: mined_cls_loss_def Let_def mining_rank_def)
  have "cls_losses (SSDMultiBoxLoss_forward self cls_pred box_pred cls_target box_target) ! d =
      ssd_device_cls self (num_pos_all ?devs) (cp, bp, ct, bt)"
    using d dev by (simp add: SSD_forward_main [OF main] cls_losses_def Let_def)
  then have "cls_losses (SSDMultiBoxLoss_forward self cls_pred box_pred cls_target box_target) ! d ! b =
      sum_list (?mined ! b) / max 1 (num_pos_all ?devs)"
    using b lm by (simp add: ssd_device_cls_def sum_per_sample2_def)
  then show "cls_losses (SSDMultiBoxLoss_forward self cls_pred box_pred cls_target box_target) ! d ! b =
           (\<Sum>j\<leftarrow>[0..<length (ct ! b)]. contribution self (cross_entropy cp ct ! b) (ct ! b) j)
             / max 1 (num_pos_all ?devs)"
    by (simp only: mined_cls_loss_row [OF sh b])
next
  let ?ce = "cross_entropy cp ct ! b"
  have lce: "length ?ce = length (ct ! b)" using cross_entropy_shape(2) [OF sh b] .
  show "\<forall>j j'. j < length (ct ! b) \<and> j' < length (ct ! b) \<and> ct ! b ! j \<le> 0 \<and> ct ! b ! j' \<le> 0 \<and>
                 ?ce ! j' < ?ce ! j \<longrightarrow>
                 anchor_rank ?ce (ct ! b) ! j < anchor_rank ?ce (ct ! b) ! j'"
  proof (intro allI impI)
    fix j j'
    assume h: "j < length (ct ! b) \<and> j' < length (ct ! b) \<and> ct ! b ! j \<le> 0 \<and> ct ! b ! j' \<le> 0 \<and>
                 ?ce ! j' < ?ce ! j"
    let ?k = "masked_negated_loss ?ce (ct ! b)"
    have lk: "length ?k = length (ct ! b)" using lce by (simp add: masked_negated_loss_def)
    have "?k ! j < ?k ! j'" using h lce by (simp add: masked_negated_loss_def)
    with h lk show "anchor_rank ?ce (ct ! b) ! j < anchor_rank ?ce (ct ! b) ! j'"
      unfolding anchor_rank_def by (intro rank_less) simp_all
  qed
qed

text \<open>
  Claim C2. \<^verbatim>\<open>num_pos_all\<close> is the number of entries with \<open>cls_target > 0\<close>
  summed over all device tuples, and in the main branch the classification loss and
  the box loss of every device are its per-sample sums divided by
  \<open>max 1 num_pos_all\<close>, the same denominator for every device.
\<close>

theorem multi_device_reduction:
  assumes main: "\<not> ssd_early_return self (ssd_devices cls_pred box_pred cls_target box_target)"
    and d: "d < length (ssd_devices cls_pred box_pred cls_target box_target)"
    and dev: "ssd_devices cls_pred box_pred cls_target box_target ! d = (cp, bp, ct, bt)"
  shows "num_pos_all (ssd_devices cls_pred box_pred cls_target box_target) =
           real (total_positive (ssd_devices cls_pred box_pred cls_target box_target)) \<and>
         cls_losses (SSDMultiBoxLoss_forward self cls_pred box_pred cls_target box_target) ! d =
           map (\<lambda>x. x / max 1 (real (total_positive (ssd_devices cls_pred box_pred cls_target box_target))))
             (sum_per_sample2 (mined_cls_loss (ssd_min_hard_negatives self) (ssd_negative_mining_ratio self) cp ct)) \<and>
         box_losses (SSDMultiBoxLoss_forward self cls_pred box_pred cls_target box_target) ! d =
           map (\<lambda>x. x / max 1 (real (total_positive (ssd_devices cls_pred box_pred cls_target box_target))))
             (sum_per_sample3 (positive_box_loss (ssd_rho self) bp ct bt))"
  using d dev
  by (simp add: SSD_forward_main [OF main] cls_losses_def box_losses_def Let_def
      ssd_device_cls_def ssd_device_box_def num_pos_all_count)

lemma YOLACT_forward_early:
  assumes "yolact_early_return self (ssd_devices cls_pred box_pred cls_target box_target)"
  shows "YOLACTMultiBoxLoss_forward self SBCELoss cls_pred box_pred mask_pred mask_eoc cls_target box_target
           mask_target matches bts =
     (map (\<lambda>_. [0]) (zip (as_list cls_pred) (zip (as_list box_pred) mask_eoc)),
      map (\<lambda>_. [0]) (as_list cls_pred),
      map (\<lambda>_. [0]) (as_list box_pred),
      map (\<lambda>_. [0]) mask_eoc)"
  using assms
  by (simp add: YOLACTMultiBoxLoss_forward_def ssd_devices_def yolact_early_return_def Let_def
      zero_sum3_zero split_def)

text \<open>
  Claim C8. When \<^verbatim>\<open>num_pos_all < 1\<close> and \<^verbatim>\<open>min_hard_negatives < 1\<close>, the
  forward pass of \<^verbatim>\<open>SSDMultiBoxLoss\<close> and of \<^verbatim>\<open>YOLACTMultiBoxLoss\<close> returns
  zero scalars for every classification loss, box loss (and mask loss) and sum loss,
  whatever the predictions and targets are: nothing is mined, regressed or divided.
\<close>

theorem empty_batch_dummy_losses:
  "(ssd_early_return self (ssd_devices cls_pred box_pred cls_target box_target) \<longrightarrow>
      SSDMultiBoxLoss_forward self cls_pred box_pred cls_target box_target =
        (map (\<lambda>_. [0]) (zip (as_list cls_pred) (as_list box_pred)),
         map (\<lambda>_. [0]) (as_list cls_pred),
         map (\<lambda>_. [0]) (as_list box_pred))) \<and>
   (yolact_early_return yself (ssd_devices cls_pred box_pred cls_target box_target) \<longrightarrow>
      YOLACTMultiBoxLoss_forward yself SBCELoss cls_pred box_pred mask_pred mask_eoc cls_target box_target
          mask_target matches bts =
        (map (\<lambda>_. [0]) (zip (as_list cls_pred) (zip (as_list box_pred) mask_eoc)),
         map (\<lambda>_. [0]) (as_list cls_pred),
         map (\<lambda>_. [0]) (as_list box_pred),
         map (\<lambda>_. [0]) mask_eoc))"
  by (simp add: SSD_forward_early YOLACT_forward_early split_def)

lemma example_devices:
  "ssd_devices (Single example_cls_pred) (Single example_box) (Single ct) (Single example_box) =
     [(example_cls_pred, example_box, ct, example_box)]"
  by (simp add: ssd_devices_def zip4_def as_list_def)

lemma example_num_pos:
  "num_pos_all [(cp, bp, example_cls_target, bt)] = 1"
  "num_pos_all [(cp, bp, background_target, bt)] = 0"
  by (simp_all add: num_pos_all_def pos_samples_sum_def sum_all_def as_float_def
      example_cls_target_def background_target_def)

text \<open>
  The theorem at one device whose three anchors are all background, for both blocks
  with their default parameters for the minimum of hard negatives.
\<close>

theorem empty_batch_dummy_losses_witness:
  "ssd_early_return example_ssd
     (ssd_devices (Single example_cls_pred) (Single example_box) (Single background_target) (Single example_box)) \<and>
   SSDMultiBoxLoss_forward example_ssd (Single example_cls_pred) (Single example_box)
       (Single background_target) (Single example_box) = ([[0]], [[0]], [[0]]) \<and>
   yolact_early_return (YOLACTMultiBoxLoss_init 3 1 (3/2) 1 (5/4) 0)
     (ssd_devices (Single example_cls_pred) (Single example_box) (Single background_target) (Single example_box)) \<and>
   YOLACTMultiBoxLoss_forward (YOLACTMultiBoxLoss_init 3 1 (3/2) 1 (5/4) 0) unit_sbce
       (Single example_cls_pred) (Single example_box) [example_mask_pred] [example_mask_eoc]
       (Single background_target) (Single example_box) [example_mask_target] [example_matches]
       [example_bt_target] = ([[0]], [[0]], [[0]], [[0]])"
proof -
  have e: "ssd_early_return example_ssd
     (ssd_devices (Single example_cls_pred) (Single example_box) (Single background_target) (Single example_box))"
    by (simp add: ssd_early_return_def example_devices example_num_pos example_ssd_def
        SSDMultiBoxLoss_init_def)
  have y: "yolact_early_return (YOLACTMultiBoxLoss_init 3 1 (3/2) 1 (5/4) 0)
     (ssd_devices (Single example_cls_pred) (Single example_box) (Single background_target) (Single example_box))"
    by (simp add: yolact_early_return_def example_devices example_num_pos YOLACTMultiBoxLoss_init_def)
  note t = empty_batch_dummy_losses [of example_ssd "Single example_cls_pred" "Single example_box"
      "Single background_target" "Single example_box" "YOLACTMultiBoxLoss_init 3 1 (3/2) 1 (5/4) 0"
      unit_sbce "[example_mask_pred]" "[example_mask_eoc]" "[example_mask_target]" "[example_matches]"
      "[example_bt_target]"]
  from t e y show ?thesis by (simp add: as_list_def)
qed

lemma example_ce:
  "cross_entropy example_cls_pred example_cls_target = [[ln 2, ln 2, ln 4]]"
  by (simp add: cross_entropy_def example_cls_pred_def example_cls_target_def log_softmax_def pick_def)

lemma example_rank:
  "masked_negated_loss [ln 2, ln 2, ln 4] [1, 0, 0] = [0, - ln 2, - ln 4]"
  "argsort [0, - ln 2, - ln (4::real)] = [2, Suc 0, 0]"
  "argsort [2, Suc 0, 0::nat] = [2, Suc 0, 0]"
  by (simp_all add: masked_negated_loss_def argsort_def upt_rec)

lemma mined_cls_loss_length:
  "same_shape2 cp ct \<Longrightarrow> length (mined_cls_loss m r cp ct) = length ct"
  using cross_entropy_shape(1) [of cp ct]
  by (simp add: mined_cls_loss_def Let_def mining_rank_def)

lemma example_contributions:
  "anchor_rank [ln 2, ln 2, ln 4] [1, 0, 0] = [2, Suc 0, 0]"
  "mining_limit example_ssd [1, 0, 0] = 1"
  "contribution example_ssd [ln 2, ln 2, ln 4] [1, 0, 0] 0 = ln 2"
  "contribution example_ssd [ln 2, ln 2, ln 4] [1, 0, 0] (Suc 0) = 0"
  "contribution example_ssd [ln 2, ln 2, ln 4] [1, 0, 0] (Suc (Suc 0)) = ln 4"
  by (simp_all add: contribution_def anchor_rank_def example_rank mining_limit_def num_positive_def
      example_ssd_def SSDMultiBoxLoss_init_def)

lemma example_shape: "same_shape2 example_cls_pred example_cls_target"
  by (simp add: same_shape2_def example_cls_pred_def example_cls_target_def)

text \<open>
  The theorem at a row of three anchors: the positive anchor and the negative with the
  larger loss \<open>ln 4\<close> (rank 0) contribute, the negative with loss \<open>ln 2\<close> (rank 1)
  does not.
\<close>

theorem hard_negative_mining_witness:
  "\<not> ssd_early_return example_ssd
      (ssd_devices (Single example_cls_pred) (Single example_box) (Single example_cls_target) (Single example_box)) \<and>
   ssd_devices (Single example_cls_pred) (Single example_box) (Single example_cls_target) (Single example_box) ! 0 =
     (example_cls_pred, example_box, example_cls_target, example_box) \<and>
   same_shape2 example_cls_pred example_cls_target \<and>
   cross_entropy example_cls_pred example_cls_target ! 0 = [ln 2, ln 2, ln 4] \<and>
   anchor_rank [ln 2, ln 2, ln 4] (example_cls_target ! 0) = [2, Suc 0, 0] \<and>
   cls_losses (SSDMultiBoxLoss_forward example_ssd (Single example_cls_pred) (Single example_box)
       (Single example_cls_target) (Single example_box)) ! 0 ! 0 = ln 2 + ln 4"
proof -
  let ?devs = "ssd_devices (Single example_cls_pred) (Single example_box) (Single example_cls_target) (Single example_box)"
  have m: "\<not> ssd_early_return example_ssd ?devs"
    by (simp add: ssd_early_return_def example_devices example_num_pos)
  have d: "0 < length ?devs" by (simp add: example_devices)
  have dv: "?devs ! 0 = (example_cls_pred, example_box, example_cls_target, example_box)"
    by (simp add: example_devices)
  have b: "0 < length example_cls_target" by (simp add: example_cls_target_def)
  have r: "example_cls_target ! 0 = [1, 0, 0]" by (simp add: example_cls_target_def)
  note t = hard_negative_mining [OF m d dv example_shape b, THEN conjunct1]
  have "cls_losses (SSDMultiBoxLoss_forward example_ssd (Single example_cls_pred) (Single example_box)
       (Single example_cls_target) (Single example_box)) ! 0 ! 0 = ln 2 + ln 4"
    unfolding t by (simp add: example_ce r example_contributions example_devices example_num_pos upt_rec)
  with m dv show ?thesis
    by (simp add: example_shape example_ce r example_contributions)
qed

text \<open>
  The theorem at two devices with one positive anchor each: the second device divides
  by the global count 2.
\<close>

theorem multi_device_reduction_witness:
  "\<not> ssd_early_return example_ssd
      (ssd_devices (two_devices example_cls_pred) (two_devices example_box)
         (two_devices example_cls_target) (two_devices example_box)) \<and>
   ssd_devices (two_devices example_cls_pred) (two_devices example_box)
         (two_devices example_cls_target) (two_devices example_box) ! 1 =
     (example_cls_pred, example_box, example_cls_target, example_box) \<and>
   num_pos_all (ssd_devices (two_devices example_cls_pred) (two_devices example_box)
         (two_devices example_cls_target) (two_devices example_box)) = 2 \<and>
   cls_losses (SSDMultiBoxLoss_forward example_ssd (two_devices example_cls_pred) (two_devices example_box)
       (two_devices example_cls_target) (two_devices example_box)) ! 1 = [(ln 2 + ln 4) / 2] \<and>
   box_losses (SSDMultiBoxLoss_forward example_ssd (two_devices example_cls_pred) (two_devices example_box)
       (two_devices example_cls_target) (two_devices example_box)) ! 1 = [0 / 2]"
proof -
  let ?devs = "ssd_devices (two_devices example_cls_pred) (two_devices example_box)
         (two_devices example_cls_target) (two_devices example_box)"
  have dl: "?devs = [(example_cls_pred, example_box, example_cls_target, example_box),
      (example_cls_pred, example_box, example_cls_target, example_box)]"
    by (simp add: ssd_devices_def zip4_def as_list_def two_devices_def)
  have tp: "total_positive ?devs = 2"
    unfolding dl by (simp add: total_positive_def num_positive_def example_cls_target_def)
  have n: "num_pos_all ?devs = 2"
    by (simp add: num_pos_all_count tp)
  have m: "\<not> ssd_early_return example_ssd ?devs"
    by (simp add: ssd_early_return_def n)
  have d: "1 < length ?devs" by (simp add: dl)
  have dv: "?devs ! 1 = (example_cls_pred, example_box, example_cls_target, example_box)"
    by (simp add: dl)
  have mined: "sum_per_sample2 (mined_cls_loss (ssd_min_hard_negatives example_ssd)
        (ssd_negative_mining_ratio example_ssd) example_cls_pred example_cls_target) = [ln 2 + ln 4]"
  proof -
    have b: "0 < length example_cls_target" by (simp add: example_cls_target_def)
    have r: "example_cls_target ! 0 = [1, 0, 0]" by (simp add: example_cls_target_def)
    have l: "length (mined_cls_loss (ssd_min_hard_negatives example_ssd)
        (ssd_negative_mining_ratio example_ssd) example_cls_pred example_cls_target) = 1"
      using mined_cls_loss_length [OF example_shape] by (simp add: example_cls_target_def)
    have "mined_cls_loss (ssd_min_hard_negatives example_ssd)
        (ssd_negative_mining_ratio example_ssd) example_cls_pred example_cls_target ! 0 = [ln 2, 0, ln 4]"
      unfolding mined_cls_loss_row [OF example_shape b]
      by (simp add: example_ce r example_contributions upt_rec)
    with l show ?thesis
      by (cases "mined_cls_loss (ssd_min_hard_negatives example_ssd)
        (ssd_negative_mining_ratio example_ssd) example_cls_pred example_cls_target")
         (simp_all add: sum_per_sample2_def)
  qed
  have box: "sum_per_sample3 (positive_box_loss (ssd_rho example_ssd) example_box example_cls_target example_box) = [0]"
    by (simp add: sum_per_sample3_def positive_box_loss_def Let_def reshape_like_def zip_with3_def map3_def
        example_box_def example_cls_target_def example_ssd_def SSDMultiBoxLoss_init_def as_float_def)
  note t = multi_device_reduction [OF m d dv]
  from t m dv n show ?thesis
    by (simp add: tp mined box)
qed

section \<open>Verification of the mask-coefficient projection\<close>

lemma pos_num_count: "pos_num row = length (filter (\<lambda>m. 0 \<le> m) row)"
proof -
  have "sum_list (map (\<lambda>m. as_float (m \<ge> (0::int))) row) = real (length (filter (\<lambda>m. 0 \<le> m) row))"
    by (induction row) (simp_all add: as_float_def)
  then show ?thesis by (simp add: pos_num_def)
qed

lemma sorted_filter_take:
  fixes f :: "'a \<Rightarrow> 'b::linorder"
  shows "sorted (map f xs) \<Longrightarrow> filter (\<lambda>x. f x \<le> c) xs = take (length (filter (\<lambda>x. f x \<le> c) xs)) xs"
proof (induction xs)
  case Nil
  then show ?case by simp
next
  case (Cons x xs)
  show ?case
  proof (cases "f x \<le> c")
    case True
    with Cons show ?thesis by simp
  next
    case False
    with Cons.prems have "\<forall>y \<in> set xs. \<not> f y \<le> c" by auto
    then have "filter (\<lambda>x. f x \<le> c) xs = []" by (simp add: filter_empty_conv)
    with False show ?thesis by simp
  qed
qed

lemma length_filter_indices:
  "length (filter (\<lambda>j. P (xs ! j)) [0..<length xs]) = length (filter P xs)"
proof -
  have "filter P (map (\<lambda>j. xs ! j) [0..<length xs]) = map (\<lambda>j. xs ! j) (filter (\<lambda>j. P (xs ! j)) [0..<length xs])"
    by (simp add: filter_map comp_def)
  then have "filter P xs = map (\<lambda>j. xs ! j) (filter (\<lambda>j. P (xs ! j)) [0..<length xs])"
    by (simp add: map_nth)
  then show ?thesis by (metis length_map)
qed

lemma positive_anchors_filter:
  "positive_anchors m = filter (\<lambda>j. 0 \<le> m ! j) (argsort (map uminus m))"
proof -
  let ?k = "map uminus m"
  let ?p = "argsort ?k"
  have in_range: "j < length m" if "j \<in> set ?p" for j using that by simp
  have eq: "filter (\<lambda>j. ?k ! j \<le> 0) ?p = filter (\<lambda>j. 0 \<le> m ! j) ?p"
    by (rule filter_cong [OF refl]) (simp add: in_range)
  have "sorted (map (\<lambda>j. ?k ! j) ?p)" by (rule argsort_sorted)
  then have "filter (\<lambda>j. ?k ! j \<le> 0) ?p = take (length (filter (\<lambda>j. ?k ! j \<le> 0) ?p)) ?p"
    by (rule sorted_filter_take)
  then have t: "filter (\<lambda>j. 0 \<le> m ! j) ?p = take (length (filter (\<lambda>j. 0 \<le> m ! j) ?p)) ?p"
    by (simp only: eq)
  have "length (filter (\<lambda>j. 0 \<le> m ! j) ?p) = length (filter (\<lambda>j. 0 \<le> m ! j) [0..<length m])"
    by (simp add: argsort_def filter_sort)
  also have "\<dots> = length (filter (\<lambda>x. 0 \<le> x) m)"
    by (rule length_filter_indices)
  finally have "length (filter (\<lambda>j. 0 \<le> m ! j) ?p) = length (filter (\<lambda>x. 0 \<le> x) m)" .
  with t show ?thesis by (simp add: positive_anchors_def)
qed

lemma positive_anchors_set:
  "set (positive_anchors m) = {j. j < length m \<and> 0 \<le> m ! j}"
  by (auto simp: positive_anchors_filter)

lemma positive_anchors_distinct: "distinct (positive_anchors m)"
  by (simp add: positive_anchors_filter)

lemma positive_anchors_length: "length (positive_anchors m) = length (filter (\<lambda>x. 0 \<le> x) m)"
  by (simp add: positive_anchors_def)

lemma positive_anchors_descending:
  "sorted (map (\<lambda>j. - m ! j) (positive_anchors m))"
proof -
  have "sorted (map (\<lambda>j. map uminus m ! j) (argsort (map uminus m)))" by (rule argsort_sorted)
  then have "sorted (map (\<lambda>j. map uminus m ! j) (positive_anchors m))"
    unfolding positive_anchors_def by (simp add: sorted_wrt_take sorted_map)
  moreover have "map (\<lambda>j. map uminus m ! j) (positive_anchors m) = map (\<lambda>j. - m ! j) (positive_anchors m)"
    by (rule map_cong [OF refl]) (simp add: positive_anchors_set)
  ultimately show ?thesis by simp
qed

lemma nd_take_nth:
  assumes "\<forall>i \<in> set idx. i < length a"
  shows "nd_take a idx = map (\<lambda>i. a ! i) idx"
  unfolding nd_take_def using assms by (intro map_cong [OF refl]) (auto simp: min_def)

lemma positive_anchors_take: "take (pos_num m) (argsort (map uminus m)) = positive_anchors m"
  by (simp add: positive_anchors_def pos_num_count)

lemma mask_loss_sample_length:
  "length (mask_loss_sample W H SBCELoss mp me mt m bt) = 1"
  by (simp add: mask_loss_sample_def Let_def split_def)

lemma mask_loss_sample_projected:
  assumes pos: "pos_num m \<noteq> 0" and le: "length me = length m" and lb: "length bt = length m"
  shows "mask_loss_sample W H SBCELoss mp me mt m bt = [projected_mask_loss W H SBCELoss mp me mt m bt]"
proof -
  let ?idx = "positive_anchors m"
  have r: "\<forall>i \<in> set ?idx. i < length m" by (simp add: positive_anchors_set)
  have tb: "nd_take bt ?idx = map (\<lambda>j. bt ! j) ?idx"
    using r lb by (intro nd_take_nth) simp
  have te: "nd_take me ?idx = map (\<lambda>j. me ! j) ?idx"
    using r le by (intro nd_take_nth) simp
  show ?thesis
    using pos
    by (simp add: mask_loss_sample_def Let_def positive_anchors_take tb te projected_mask_loss_def
        instance_masks_def split_def zip_map2 box_area_def comp_def)
qed

lemma concat_singletons:
  "\<forall>x \<in> set xs. length (g x) = 1 \<Longrightarrow> concat (map g xs) = map (\<lambda>x. g x ! 0) xs"
proof (induction xs)
  case Nil
  then show ?case by simp
next
  case (Cons x xs)
  then have "length (g x) = 1" by simp
  then have "g x = [g x ! 0]" by (cases "g x") simp_all
  with Cons show ?case by simp
qed

lemma mask_loss_nth:
  assumes "i < length mask_pred"
  shows "mask_loss W H SBCELoss mask_pred mask_eoc mask_target matches bt_target ! i =
           mask_loss_sample W H SBCELoss (mask_pred ! i) (mask_eoc ! i) (mask_target ! i) (matches ! i)
             (bt_target ! i) ! 0"
    and "length (mask_loss W H SBCELoss mask_pred mask_eoc mask_target matches bt_target) = length mask_pred"
  using assms by (simp_all add: mask_loss_def concat_singletons mask_loss_sample_length)

text \<open>
  Claim C5. In \<^verbatim>\<open>mask_loss\<close>, for every sample \<open>i\<close> with at least one positive
  match, the loss of the sample is \<open>projected_mask_loss\<close>: the predicted instance
  masks are \<open>sigmoid (take (mask_eoc[i], idx) . mask_pred[i])\<close> for \<open>idx\<close> the top
  \<open>pos_num[i]\<close> indices of the \<^verbatim>\<open>argsort\<close> of \<open>- matches[i]\<close>, they are cropped
  to the matched boxes, compared with the matched ground-truth masks by the sigmoid
  binary cross entropy, and each instance is weighted by
  \<open>gt_width * gt_height / area\<close> of its box before the mean. The selected indices
  are exactly the anchors with \<open>matches[i, j] \<ge> 0\<close>, each once, by descending match.
\<close>

theorem mask_coefficient_projection:
  assumes "i < length mask_pred"
    and "\<exists>j < length (matches ! i). 0 \<le> matches ! i ! j"
    and "length (mask_eoc ! i) = length (matches ! i)"
    and "length (bt_target ! i) = length (matches ! i)"
  shows "mask_loss W H SBCELoss mask_pred mask_eoc mask_target matches bt_target ! i =
           projected_mask_loss W H SBCELoss (mask_pred ! i) (mask_eoc ! i) (mask_target ! i) (matches ! i)
             (bt_target ! i) \<and>
         set (positive_anchors (matches ! i)) = {j. j < length (matches ! i) \<and> 0 \<le> matches ! i ! j} \<and>
         distinct (positive_anchors (matches ! i)) \<and>
         sorted (map (\<lambda>j. - matches ! i ! j) (positive_anchors (matches ! i))) \<and>
         length (mask_loss W H SBCELoss mask_pred mask_eoc mask_target matches bt_target) = length mask_pred"
proof -
  from assms(2) obtain j where "j < length (matches ! i)" "0 \<le> matches ! i ! j" by blast
  then have "matches ! i ! j \<in> set (filter (\<lambda>m. 0 \<le> m) (matches ! i))" by simp
  then have "filter (\<lambda>m. 0 \<le> m) (matches ! i) \<noteq> []" by (metis empty_iff empty_set)
  then have pos: "pos_num (matches ! i) \<noteq> 0" by (simp add: pos_num_count)
  show ?thesis
    using mask_loss_nth [OF assms(1)] mask_loss_sample_projected [OF pos assms(3,4)]
    by (simp add: positive_anchors_set positive_anchors_distinct positive_anchors_descending)
qed

text \<open>
  The theorem at a sample of two anchors of which the second is matched: its box has
  area 4, so with a loss block that returns 1 the sample's loss is
  \<open>550 * 550 / 4\<close>.
\<close>

theorem mask_coefficient_projection_witness:
  "0 < length example_mask_pred \<and>
   (1::nat) < length (example_matches ! 0) \<and> 0 \<le> example_matches ! 0 ! 1 \<and>
   length (example_mask_eoc ! 0) = length (example_matches ! 0) \<and>
   length (example_bt_target ! 0) = length (example_matches ! 0) \<and>
   positive_anchors (example_matches ! 0) = [1] \<and>
   mask_loss 550 550 unit_sbce example_mask_pred example_mask_eoc example_mask_target example_matches
       example_bt_target ! 0 = 550 * 550 / 4"
proof -
  have a: "0 < length example_mask_pred" by (simp add: example_mask_pred_def)
  have b: "\<exists>j < length (example_matches ! 0). 0 \<le> example_matches ! 0 ! j"
    by (rule exI [of _ 1]) (simp add: example_matches_def)
  have c: "length (example_mask_eoc ! 0) = length (example_matches ! 0)"
    by (simp add: example_mask_eoc_def example_matches_def)
  have d: "length (example_bt_target ! 0) = length (example_matches ! 0)"
    by (simp add: example_bt_target_def example_matches_def)
  have m: "example_matches ! 0 = [-1, 0]" by (simp add: example_matches_def)
  have p: "positive_anchors [-1, 0] = [Suc 0]"
    by (simp add: positive_anchors_def argsort_def upt_rec)
  have v: "projected_mask_loss 550 550 unit_sbce (example_mask_pred ! 0) (example_mask_eoc ! 0)
      (example_mask_target ! 0) [-1, 0] (example_bt_target ! 0) = 550 * 550 / 4"
    by (simp add: projected_mask_loss_def Let_def p unit_sbce_def crop_def instance_masks_def map3_def
        nd_dot_def mask_hw_def example_mask_pred_def example_mask_eoc_def example_bt_target_def
        box_area_def mean_def)
  from mask_coefficient_projection [OF a b c d, of 550 550 unit_sbce example_mask_target, THEN conjunct1]
  have "mask_loss 550 550 unit_sbce example_mask_pred example_mask_eoc example_mask_target example_matches
       example_bt_target ! 0 = 550 * 550 / 4"
    by (simp only: m v)
  with a c d show ?thesis by (simp add: m p)
qed

end
